theory Spec2Isabelle
  imports Complex_Main "HOL-Library.Multiset"
begin

section \<open>\<open>utils.ts\<close>: the Fisher-Yates shuffle\<close>

text \<open>
  \<open>shuffle\<close> copies its argument (\<open>const out = [...array]\<close>) and then swaps inside the copy.
  Arrays are JavaScript objects, so the model keeps them in a store: a list of arrays, an array's
  reference being its position in the store. Allocation appends to the store.

  \<open>Math.random()\<close> is the only input besides the array. It is a parameter of the model:
  \<open>rnd k\<close> is the value returned by the \<open>k\<close>-th call, a number in \<open>[0, 1)\<close>.
\<close>

type_synonym 'a heap = "'a list list"

text \<open>\<open>[out[i], out[j]] = [out[j], out[i]]\<close>: both reads happen before both writes.\<close>

definition swap :: "'a list \<Rightarrow> nat \<Rightarrow> nat \<Rightarrow> 'a list" where
  "swap out i j = (out[i := out ! j])[j := out ! i]"

text \<open>
  The loop \<open>for (let i = out.length - 1; i > 0; i--)\<close>, with \<open>i\<close> an integer (it is \<open>-1\<close> for the
  empty array) and \<open>out\<close> the reference of the copy.
\<close>

function shuffle_loop :: "(nat \<Rightarrow> rat) \<Rightarrow> nat \<Rightarrow> int \<Rightarrow> nat \<Rightarrow> 'a heap \<Rightarrow> 'a heap" where
  "shuffle_loop rnd k i out h =
     (if i > 0
      then let j = \<lfloor>rnd k * of_int (i + 1)\<rfloor>
           in shuffle_loop rnd (k + 1) (i - 1) out (h[out := swap (h ! out) (nat i) (nat j)])
      else h)"
  by pat_completeness auto
termination
  by (relation "measure (\<lambda>(rnd, k, i, out, h). nat i)") auto

declare shuffle_loop.simps [simp del]

definition shuffle :: "(nat \<Rightarrow> rat) \<Rightarrow> nat \<Rightarrow> 'a heap \<Rightarrow> nat \<times> 'a heap" where
  "shuffle rnd array h =
     (let out = length h;
          h1 = h @ [h ! array]
      in (out, shuffle_loop rnd 0 (int (length (h1 ! out)) - 1) out h1))"

text \<open>The result of \<open>shuffle\<close> as a value, for callers that hold no other reference to the input.\<close>

definition shuffled :: "(nat \<Rightarrow> rat) \<Rightarrow> 'a list \<Rightarrow> 'a list" where
  "shuffled rnd xs = (case shuffle rnd 0 [xs] of (out, h) \<Rightarrow> h ! out)"

section \<open>\<open>App.tsx\<close>: the clip playback session\<close>

text \<open>
  The component \<open>App\<close> is event driven: user intents, interval ticks, settled network calls and
  audio element events each run one handler to completion on a single timeline. The model is a
  record of the component's state (\<open>useState\<close> values and \<open>useRef\<close> cells), followed by what the
  browser holds for it: live intervals, pending timeouts, pending \<open>fetch\<close> promises and the audio
  elements. Every function passed to the browser is a value of the datatype \<open>callback\<close> that
  keeps what the closure captured. An \<open>async\<close> handler is split at its \<open>await\<close>: the first half
  registers the second as the continuation of the pending call.

  Times are milliseconds as \<open>performance.now()\<close> reports them (audio positions are seconds, as
  \<open>currentTime\<close> is); the reading of the clock is a parameter \<open>now\<close> of every handler.

  Three conventions. A handler called from the view is the one created by the latest render,
  so it has captured the state the event finds; a callback registered earlier keeps what it
  captured then. A \<open>fetch\<close> is rejected only when the network fails: the handlers never look
  at the status of a response to a play or pause request, so any answer fulfils the promise.
  \<open>doAdvance\<close> does not throw, so \<open>.then(doAdvance).catch(() => doAdvance())\<close> runs it once.
\<close>

type_synonym ms = rat

text \<open>JavaScript truthiness of a \<open>string | null\<close>: \<open>null\<close> and the empty string are falsy.\<close>

definition truthy :: "string option \<Rightarrow> bool" where
  "truthy s = (s \<noteq> None \<and> s \<noteq> Some [])"

text \<open>The type \<open>Track\<close>, without the fields that are only displayed.\<close>

record Track =
  track_id :: string
  uri :: "string option"
  track_name :: string
  previewUrl :: "string option"
  addedById :: "string option"

record UserProfile =
  displayName :: string
  imageUrl :: "string option"

definition SDK_CLIP_START_MS :: ms where "SDK_CLIP_START_MS = 45000"
definition SDK_CLIP_DURATION_MS :: ms where "SDK_CLIP_DURATION_MS = 60000"
definition PREVIEW_CLIP_DURATION_MS :: ms where "PREVIEW_CLIP_DURATION_MS = 30000"

text \<open>
  What the closure of \<open>playTrackAtIndex\<close> captures from the render that created it
  (the dependency list of its \<open>useCallback\<close>).
\<close>

record closure_env =
  c_tracks :: "Track list"
  c_accessToken :: "string option"
  c_playerReady :: bool
  c_deviceId :: "string option"

text \<open>One entry of the accumulated pages of a playlist, and one answer of \<open>GET /users/id\<close>.\<close>

datatype page = PageRejected | PageNotOk | PageOk "Track list" bool

datatype user_response =
    UserError
  | UserData "string option" "string option" "string option" "string option"

datatype callback =
    PlayAfterStart closure_env nat
      \<comment> \<open>\<open>playTrackAtIndex\<close> after \<open>await fetch(.../play)\<close>: index\<close>
  | PlaySdkTick closure_env nat ms
      \<comment> \<open>interval of \<open>playTrackAtIndex\<close>, SDK branch: index, start\<close>
  | PlayPreviewTick closure_env nat ms
      \<comment> \<open>interval of \<open>playTrackAtIndex\<close>, preview branch: index, start\<close>
  | PlayDoAdvance closure_env nat "string option"
      \<comment> \<open>\<open>doAdvance\<close> of \<open>playTrackAtIndex\<close>: nextIndex, inBetweenUrl\<close>
  | PlayAdvanceToNext closure_env nat
      \<comment> \<open>\<open>advanceToNext\<close> of \<open>playTrackAtIndex\<close> as \<open>audio.onended\<close>: index\<close>
  | PreviewPlayFailed
      \<comment> \<open>\<open>audio.play().catch(...)\<close> of \<open>playTrackAtIndex\<close>\<close>
  | InBetweenDone closure_env nat
      \<comment> \<open>\<open>onended\<close> and \<open>play().catch\<close> of the in-between sound: nextIndex\<close>
  | DelayedPlay closure_env nat
      \<comment> \<open>\<open>setTimeout(() => playTrackAtIndex(nextIndex), 300)\<close>\<close>
  | PauseAfterFetch
      \<comment> \<open>\<open>handlePause\<close> after \<open>await fetch(.../pause)\<close>\<close>
  | ResumeAfterStart closure_env nat ms
      \<comment> \<open>\<open>handleResume\<close> after \<open>await fetch(.../play)\<close>: index, startElapsed\<close>
  | ResumeSdkTick closure_env nat ms ms
      \<comment> \<open>interval of \<open>handleResume\<close>, SDK branch: index, startElapsed, start\<close>
  | ResumePreviewTick closure_env nat ms ms
      \<comment> \<open>interval of \<open>handleResume\<close>, preview branch: index, startElapsed, start\<close>
  | ResumeDoAdvance closure_env nat
      \<comment> \<open>\<open>doAdvance(nextIndex)\<close> of \<open>handleResume\<close>\<close>
  | ResumeAdvanceToNext closure_env nat
      \<comment> \<open>\<open>advanceToNext\<close> of \<open>handleResume\<close> as \<open>audio.onended\<close>: index\<close>
  | ResumePlayFailed
      \<comment> \<open>\<open>audio.play().catch(...)\<close> of \<open>handleResume\<close>\<close>
  | TracksPage "string option" "Track list" nat
      \<comment> \<open>\<open>fetchPage\<close> of the playlist effect: playlist id, \<open>all\<close>, \<open>offset\<close>\<close>
  | ProfilesAll "string list"
      \<comment> \<open>\<open>Promise.all(...).then\<close> of the playlist effect: \<open>userIds\<close>\<close>

text \<open>An \<open>HTMLAudioElement\<close>: \<open>playing\<close> holds between a \<open>play()\<close> and the next pause or end.\<close>

record audio =
  src :: "string option"
  playing :: bool
  currentTime :: rat
  volume :: rat
  onended :: "callback option"
  play_catch :: "callback option"

text \<open>
  The calls the component makes on its collaborators, in program order: the Web API of the
  remote player, the audio elements, and the setter of the current index that the view reads.
\<close>

datatype call =
    RemotePlay "string option" "string option" ms
  | RemotePause "string option"
  | GetPlaylistItems "string option" nat
  | GetUsers "string list"
  | NewAudio nat "string option"
  | AudioPlay nat
  | AudioPause nat
  | SetCurrentIndex nat

datatype log = Warn string | Error string

record world =
  \<comment> \<open>\<open>useState\<close>\<close>
  accessToken :: "string option"
  deviceId :: "string option"
  playerReady :: bool
  selectedPlaylistId :: "string option"
  tracks :: "Track list"
  tracksLoading :: bool
  userProfiles :: "(string \<times> UserProfile) list"
  currentIndex :: "nat option"
  isPlaying :: bool
  clipElapsedMs :: ms
  clipDurationMs :: ms
  songsPlayed :: nat
  selectedInBetweenSoundUrl :: "string option"
  \<comment> \<open>\<open>useRef\<close>\<close>
  clipTimerRef :: "nat option"
  audioRef :: "nat option"
  inBetweenAudioRef :: "nat option"
  useSdkRef :: bool
  hasAdvancedRef :: bool
  \<comment> \<open>the browser\<close>
  intervals :: "(nat \<times> callback) list"
  timeouts :: "(nat \<times> ms \<times> callback) list"
  fetches :: "(nat \<times> callback) list"
  audios :: "audio list"
  fresh :: nat
  calls :: "call list"
  console :: "log list"

text \<open>
  The state of a freshly mounted \<open>App\<close>. Timer identifiers are positive, so that
  \<open>if (clipTimerRef.current)\<close> tests for a stored identifier.
\<close>

definition initial :: world where
  "initial = \<lparr>accessToken = None, deviceId = None, playerReady = False,
     selectedPlaylistId = None, tracks = [], tracksLoading = False, userProfiles = [],
     currentIndex = None, isPlaying = False, clipElapsedMs = 0,
     clipDurationMs = SDK_CLIP_DURATION_MS, songsPlayed = 0, selectedInBetweenSoundUrl = None,
     clipTimerRef = None, audioRef = None, inBetweenAudioRef = None, useSdkRef = False,
     hasAdvancedRef = False, intervals = [], timeouts = [], fetches = [], audios = [],
     fresh = 1, calls = [], console = []\<rparr>"

text \<open>The values a handler created by the latest render has captured.\<close>

definition env_of :: "world \<Rightarrow> closure_env" where
  "env_of w = \<lparr>c_tracks = tracks w, c_accessToken = accessToken w,
     c_playerReady = playerReady w, c_deviceId = deviceId w\<rparr>"

subsection \<open>Browser primitives\<close>

definition fetch :: "call \<Rightarrow> callback \<Rightarrow> world \<Rightarrow> world" where
  "fetch c k w = w\<lparr>fetches := fetches w @ [(fresh w, k)], fresh := fresh w + 1,
     calls := calls w @ [c]\<rparr>"

definition setTimeout :: "callback \<Rightarrow> ms \<Rightarrow> world \<Rightarrow> world" where
  "setTimeout k delay w = w\<lparr>timeouts := timeouts w @ [(fresh w, delay, k)],
     fresh := fresh w + 1\<rparr>"

text \<open>\<open>clipTimerRef.current = window.setInterval(k, 100)\<close>\<close>

definition startClipTimer :: "callback \<Rightarrow> world \<Rightarrow> world" where
  "startClipTimer k w = w\<lparr>intervals := intervals w @ [(fresh w, k)],
     clipTimerRef := Some (fresh w), fresh := fresh w + 1\<rparr>"

definition clearClipTimer :: "world \<Rightarrow> world" where
  "clearClipTimer w =
     (case clipTimerRef w of
        Some t \<Rightarrow> w\<lparr>intervals := filter (\<lambda>p. fst p \<noteq> t) (intervals w), clipTimerRef := None\<rparr>
      | None \<Rightarrow> w)"

definition audio_pause :: "nat \<Rightarrow> world \<Rightarrow> world" where
  "audio_pause a w = w\<lparr>audios := (audios w)[a := (audios w ! a)\<lparr>playing := False\<rparr>],
     calls := calls w @ [AudioPause a]\<rparr>"

definition audio_seek :: "nat \<Rightarrow> rat \<Rightarrow> world \<Rightarrow> world" where
  "audio_seek a t w = w\<lparr>audios := (audios w)[a := (audios w ! a)\<lparr>currentTime := t\<rparr>]\<rparr>"

definition audio_onended :: "nat \<Rightarrow> callback \<Rightarrow> world \<Rightarrow> world" where
  "audio_onended a k w = w\<lparr>audios := (audios w)[a := (audios w ! a)\<lparr>onended := Some k\<rparr>]\<rparr>"

text \<open>\<open>a.play().catch(k)\<close>\<close>

definition audio_play :: "nat \<Rightarrow> callback \<Rightarrow> world \<Rightarrow> world" where
  "audio_play a k w = w\<lparr>audios := (audios w)[a := (audios w ! a)\<lparr>playing := True,
     play_catch := Some k\<rparr>], calls := calls w @ [AudioPlay a]\<rparr>"

text \<open>\<open>new Audio(url)\<close>; the new element's reference is \<open>length (audios w)\<close>.\<close>

definition new_audio :: "string option \<Rightarrow> world \<Rightarrow> world" where
  "new_audio url w = w\<lparr>audios := audios w @ [\<lparr>src = url, playing = False, currentTime = 0,
     volume = 1, onended = None, play_catch = None\<rparr>],
     calls := calls w @ [NewAudio (length (audios w)) url]\<rparr>"

definition audio_volume :: "nat \<Rightarrow> rat \<Rightarrow> world \<Rightarrow> world" where
  "audio_volume a v w = w\<lparr>audios := (audios w)[a := (audios w ! a)\<lparr>volume := v\<rparr>]\<rparr>"

definition setCurrentIndex :: "nat \<Rightarrow> world \<Rightarrow> world" where
  "setCurrentIndex n w = w\<lparr>currentIndex := Some n, calls := calls w @ [SetCurrentIndex n]\<rparr>"

subsection \<open>\<open>playTrackAtIndex\<close>\<close>

definition canUseSdk :: "closure_env \<Rightarrow> Track \<Rightarrow> bool" where
  "canUseSdk e track = (c_playerReady e \<and> truthy (c_deviceId e) \<and> truthy (uri track))"

definition canUsePreview :: "Track \<Rightarrow> bool" where
  "canUsePreview track = truthy (previewUrl track)"

text \<open>\<open>if (audioRef.current) { pause(); currentTime = 0; audioRef.current = null }\<close>\<close>

definition releaseAudio :: "world \<Rightarrow> world" where
  "releaseAudio w =
     (case audioRef w of
        Some a \<Rightarrow> (audio_seek a 0 (audio_pause a w))\<lparr>audioRef := None\<rparr>
      | None \<Rightarrow> w)"

text \<open>
  The synchronous part of \<open>playTrackAtIndex\<close>, up to the \<open>await\<close> in the SDK branch and to
  the end in the preview branch.
\<close>

definition playTrackAtIndex :: "closure_env \<Rightarrow> nat \<Rightarrow> ms \<Rightarrow> world \<Rightarrow> world" where
  "playTrackAtIndex e index now w =
     (if \<not> index < length (c_tracks e) \<or> \<not> truthy (c_accessToken e) then w
      else
        let track = c_tracks e ! index in
        if \<not> canUseSdk e track \<and> \<not> canUsePreview track
        then w\<lparr>console := console w @ [Warn ''Track has no uri (SDK) or preview_url'']\<rparr>
        else
          let w1 = clearClipTimer (releaseAudio w);
              w2 = (setCurrentIndex index (w1\<lparr>clipElapsedMs := 0\<rparr>))
                     \<lparr>isPlaying := True, songsPlayed := songsPlayed w1 + 1\<rparr>;
              w3 = w2\<lparr>hasAdvancedRef := False\<rparr>
          in
          if canUseSdk e track
          then fetch (RemotePlay (c_deviceId e) (uri track) SDK_CLIP_START_MS)
                 (PlayAfterStart e index)
                 (w3\<lparr>useSdkRef := True, clipDurationMs := SDK_CLIP_DURATION_MS\<rparr>)
          else
            let w4 = w3\<lparr>useSdkRef := False, clipDurationMs := PREVIEW_CLIP_DURATION_MS\<rparr>;
                a = length (audios w4);
                w5 = (new_audio (previewUrl track) w4)\<lparr>audioRef := Some a\<rparr>;
                w6 = audio_seek a 0 (audio_volume a (9 / 10) w5);
                w7 = audio_onended a (PlayAdvanceToNext e index) w6;
                w8 = audio_play a PreviewPlayFailed w7
            in startClipTimer (PlayPreviewTick e index now) w8)"

text \<open>The rest of the SDK branch, run when the \<open>fetch\<close> settles (\<open>ok\<close>) or rejects.\<close>

definition playAfterStart :: "closure_env \<Rightarrow> nat \<Rightarrow> bool \<Rightarrow> ms \<Rightarrow> world \<Rightarrow> world" where
  "playAfterStart e index ok now w =
     (if \<not> ok
      then w\<lparr>console := console w @ [Error ''Failed to start SDK playback''],
             isPlaying := False\<rparr>
      else startClipTimer (PlaySdkTick e index now) w)"

text \<open>
  The block that starts the in-between sound or, without one, sets the index and schedules
  the next clip. The source has it three times, with the same text: in \<open>doAdvance\<close> and in
  \<open>advanceToNext\<close> of \<open>playTrackAtIndex\<close>, and in \<open>doAdvance\<close> of \<open>handleResume\<close>.
\<close>

definition doAdvance :: "closure_env \<Rightarrow> nat \<Rightarrow> string option \<Rightarrow> world \<Rightarrow> world" where
  "doAdvance e nextIndex inBetweenUrl w =
     (if truthy inBetweenUrl
      then
        let w1 = (case inBetweenAudioRef w of
                    Some b \<Rightarrow> (audio_pause b w)\<lparr>inBetweenAudioRef := None\<rparr>
                  | None \<Rightarrow> w);
            a = length (audios w1);
            w2 = (new_audio inBetweenUrl w1)\<lparr>inBetweenAudioRef := Some a\<rparr>;
            w3 = audio_onended a (InBetweenDone e nextIndex) w2
        in audio_play a (InBetweenDone e nextIndex) w3
      else setTimeout (DelayedPlay e nextIndex) 300 (setCurrentIndex nextIndex w))"

text \<open>\<open>onended\<close> of the in-between sound, and the handler of its rejected \<open>play()\<close>.\<close>

definition inBetweenDone :: "closure_env \<Rightarrow> nat \<Rightarrow> ms \<Rightarrow> world \<Rightarrow> world" where
  "inBetweenDone e nextIndex now w =
     playTrackAtIndex e nextIndex now (setCurrentIndex nextIndex (w\<lparr>inBetweenAudioRef := None\<rparr>))"

text \<open>The interval callback of the SDK branch.\<close>

definition playSdkTick :: "closure_env \<Rightarrow> nat \<Rightarrow> ms \<Rightarrow> ms \<Rightarrow> world \<Rightarrow> world" where
  "playSdkTick e index start now w =
     (let elapsed = now - start in
      if elapsed \<ge> SDK_CLIP_DURATION_MS
      then
        if hasAdvancedRef w then w
        else
          let w1 = clearClipTimer (w\<lparr>hasAdvancedRef := True\<rparr>);
              w2 = w1\<lparr>clipElapsedMs := SDK_CLIP_DURATION_MS, isPlaying := False\<rparr>;
              nextIndex = (index + 1) mod length (c_tracks e);
              inBetweenUrl = selectedInBetweenSoundUrl w2
          in
          if truthy (c_deviceId e) \<and> truthy (c_accessToken e)
          then fetch (RemotePause (c_deviceId e)) (PlayDoAdvance e nextIndex inBetweenUrl) w2
          else doAdvance e nextIndex inBetweenUrl w2
      else w\<lparr>clipElapsedMs := elapsed\<rparr>)"

text \<open>\<open>advanceToNext\<close> of the preview branch: the interval and \<open>audio.onended\<close> both call it.\<close>

definition playAdvanceToNext :: "closure_env \<Rightarrow> nat \<Rightarrow> world \<Rightarrow> world" where
  "playAdvanceToNext e index w =
     (if hasAdvancedRef w then w
      else
        let w1 = clearClipTimer (w\<lparr>hasAdvancedRef := True\<rparr>);
            w2 = w1\<lparr>clipElapsedMs := PREVIEW_CLIP_DURATION_MS, isPlaying := False\<rparr>;
            w3 = releaseAudio w2;
            nextIndex = (index + 1) mod length (c_tracks e);
            inBetweenUrl = selectedInBetweenSoundUrl w3
        in doAdvance e nextIndex inBetweenUrl w3)"

definition playPreviewTick :: "closure_env \<Rightarrow> nat \<Rightarrow> ms \<Rightarrow> ms \<Rightarrow> world \<Rightarrow> world" where
  "playPreviewTick e index start now w =
     (let elapsed = now - start in
      if elapsed \<ge> PREVIEW_CLIP_DURATION_MS then playAdvanceToNext e index w
      else w\<lparr>clipElapsedMs := elapsed\<rparr>)"

definition previewPlayFailed :: "world \<Rightarrow> world" where
  "previewPlayFailed w =
     w\<lparr>console := console w @ [Error ''Failed to play preview''], isPlaying := False\<rparr>"

subsection \<open>\<open>handlePause\<close>\<close>

text \<open>
  \<open>if (inBetweenAudioRef.current) { pause(); currentTime = 0; inBetweenAudioRef.current = null }\<close>,
  the prologue that \<open>handlePause\<close> and \<open>handleResume\<close> share.
\<close>

definition releaseInBetween :: "world \<Rightarrow> world" where
  "releaseInBetween w =
     (case inBetweenAudioRef w of
        Some b \<Rightarrow> (audio_seek b 0 (audio_pause b w))\<lparr>inBetweenAudioRef := None\<rparr>
      | None \<Rightarrow> w)"

definition handlePause :: "world \<Rightarrow> world" where
  "handlePause w =
     (let w1 = releaseInBetween (clearClipTimer w) in
      if useSdkRef w1 \<and> truthy (deviceId w) \<and> truthy (accessToken w)
      then fetch (RemotePause (deviceId w)) PauseAfterFetch w1
      else
        (case audioRef w1 of
           Some a \<Rightarrow> audio_pause a w1
         | None \<Rightarrow> w1)\<lparr>isPlaying := False\<rparr>)"

definition pauseAfterFetch :: "bool \<Rightarrow> world \<Rightarrow> world" where
  "pauseAfterFetch ok w =
     (if ok then w else w\<lparr>console := console w @ [Error ''Failed to pause'']\<rparr>)
       \<lparr>isPlaying := False\<rparr>"

subsection \<open>\<open>handleResume\<close>\<close>

text \<open>
  The handler reads \<open>currentIndex\<close>, \<open>tracks\<close>, \<open>clipElapsedMs\<close> and the device state of the
  render that created it; all of them are in its dependency list, so these are the values of
  the state the event finds.
\<close>

definition handleResume :: "ms \<Rightarrow> world \<Rightarrow> world" where
  "handleResume now w =
     (case currentIndex w of
        None \<Rightarrow> w
      | Some index \<Rightarrow>
          if \<not> index < length (tracks w) \<or> \<not> truthy (accessToken w) then w
          else
            let e = env_of w;
                track = tracks w ! index;
                startElapsed = clipElapsedMs w;
                w1 = releaseInBetween (clearClipTimer w);
                w2 = w1\<lparr>isPlaying := True, hasAdvancedRef := False\<rparr>
            in
            if canUseSdk e track
            then fetch (RemotePlay (deviceId w) (uri track) (SDK_CLIP_START_MS + startElapsed))
                   (ResumeAfterStart e index startElapsed)
                   (w2\<lparr>useSdkRef := True, clipDurationMs := SDK_CLIP_DURATION_MS\<rparr>)
            else
              let w3 = w2\<lparr>useSdkRef := False, clipDurationMs := PREVIEW_CLIP_DURATION_MS\<rparr>;
                  w4 = (case audioRef w3 of
                          Some a \<Rightarrow>
                            audio_play a ResumePlayFailed
                              (audio_onended a (ResumeAdvanceToNext e index)
                                (audio_seek a (startElapsed / 1000) w3))
                        | None \<Rightarrow>
                            let a = length (audios w3);
                                w5 = (new_audio (previewUrl track) w3)\<lparr>audioRef := Some a\<rparr>;
                                w6 = audio_seek a (startElapsed / 1000)
                                       (audio_volume a (9 / 10) w5);
                                w7 = audio_onended a (ResumeAdvanceToNext e index) w6
                            in audio_play a ResumePlayFailed w7)
              in startClipTimer (ResumePreviewTick e index startElapsed now) w4)"

definition resumeAfterStart ::
    "closure_env \<Rightarrow> nat \<Rightarrow> ms \<Rightarrow> bool \<Rightarrow> ms \<Rightarrow> world \<Rightarrow> world" where
  "resumeAfterStart e index startElapsed ok now w =
     (if \<not> ok
      then w\<lparr>console := console w @ [Error ''Failed to resume SDK playback''],
             isPlaying := False\<rparr>
      else startClipTimer (ResumeSdkTick e index startElapsed now) w)"

text \<open>\<open>doAdvance(nextIndex)\<close> of \<open>handleResume\<close> reads the selection when it runs.\<close>

definition resumeDoAdvance :: "closure_env \<Rightarrow> nat \<Rightarrow> world \<Rightarrow> world" where
  "resumeDoAdvance e nextIndex w = doAdvance e nextIndex (selectedInBetweenSoundUrl w) w"

definition resumeSdkTick :: "closure_env \<Rightarrow> nat \<Rightarrow> ms \<Rightarrow> ms \<Rightarrow> ms \<Rightarrow> world \<Rightarrow> world" where
  "resumeSdkTick e index startElapsed start now w =
     (let elapsed = now - start;
          totalElapsed = startElapsed + elapsed in
      if totalElapsed \<ge> SDK_CLIP_DURATION_MS
      then
        if hasAdvancedRef w then w
        else
          let w1 = clearClipTimer (w\<lparr>hasAdvancedRef := True\<rparr>);
              w2 = w1\<lparr>clipElapsedMs := SDK_CLIP_DURATION_MS, isPlaying := False\<rparr>;
              nextIndex = (index + 1) mod length (c_tracks e)
          in
          if truthy (c_deviceId e) \<and> truthy (c_accessToken e)
          then fetch (RemotePause (c_deviceId e)) (ResumeDoAdvance e nextIndex) w2
          else resumeDoAdvance e nextIndex w2
      else w\<lparr>clipElapsedMs := totalElapsed\<rparr>)"

definition resumeAdvanceToNext :: "closure_env \<Rightarrow> nat \<Rightarrow> world \<Rightarrow> world" where
  "resumeAdvanceToNext e index w =
     (if hasAdvancedRef w then w
      else
        let w1 = clearClipTimer (w\<lparr>hasAdvancedRef := True\<rparr>);
            w2 = w1\<lparr>clipElapsedMs := PREVIEW_CLIP_DURATION_MS, isPlaying := False\<rparr>;
            w3 = releaseAudio w2;
            nextIndex = (index + 1) mod length (c_tracks e)
        in resumeDoAdvance e nextIndex w3)"

definition resumePreviewTick ::
    "closure_env \<Rightarrow> nat \<Rightarrow> ms \<Rightarrow> ms \<Rightarrow> ms \<Rightarrow> world \<Rightarrow> world" where
  "resumePreviewTick e index startElapsed start now w =
     (let elapsed = now - start;
          totalElapsed = startElapsed + elapsed in
      if totalElapsed \<ge> PREVIEW_CLIP_DURATION_MS then resumeAdvanceToNext e index w
      else w\<lparr>clipElapsedMs := totalElapsed\<rparr>)"

definition resumePlayFailed :: "world \<Rightarrow> world" where
  "resumePlayFailed w =
     w\<lparr>console := console w @ [Error ''Failed to resume preview''], isPlaying := False\<rparr>"

subsection \<open>\<open>handleNext\<close>, \<open>handlePrev\<close> and the rows\<close>

definition handleNext :: "ms \<Rightarrow> world \<Rightarrow> world" where
  "handleNext now w =
     (case currentIndex w of
        None \<Rightarrow> w
      | Some i \<Rightarrow> if i + 1 \<ge> length (tracks w) then w
                  else playTrackAtIndex (env_of w) (i + 1) now w)"

definition handlePrev :: "ms \<Rightarrow> world \<Rightarrow> world" where
  "handlePrev now w =
     (case currentIndex w of
        None \<Rightarrow> w
      | Some i \<Rightarrow> if i = 0 then w
                  else playTrackAtIndex (env_of w) (i - 1) now w)"

definition isTrackPlayable :: "Track \<Rightarrow> bool" where
  "isTrackPlayable track = (truthy (uri track) \<or> truthy (previewUrl track))"

text \<open>The row's \<open>onClick\<close>: \<open>playable && playTrackAtIndex(index)\<close>, for a row that exists.\<close>

definition rowClick :: "nat \<Rightarrow> ms \<Rightarrow> world \<Rightarrow> world" where
  "rowClick index now w =
     (if isTrackPlayable (tracks w ! index) then playTrackAtIndex (env_of w) index now w else w)"

text \<open>The row's play button, \<open>handleRowPlayPause\<close>, for a row that exists.\<close>

definition handleRowPlayPause :: "nat \<Rightarrow> ms \<Rightarrow> world \<Rightarrow> world" where
  "handleRowPlayPause index now w =
     (if \<not> isTrackPlayable (tracks w ! index) then w
      else if currentIndex w = Some index \<and> isPlaying w then handlePause w
      else if currentIndex w = Some index \<and> \<not> isPlaying w then handleResume now w
      else playTrackAtIndex (env_of w) index now w)"

subsection \<open>The playlist effect\<close>

text \<open>
  The effect on \<open>[accessToken, selectedPlaylistId]\<close> resets the list and starts \<open>fetchPage\<close>.
  It returns no cleanup function. A page arrives as the tracks that pass the filter of the
  loop (\<open>if (!t || t.type === 'episode') continue\<close>) and the flag \<open>body.next\<close>.
\<close>

definition selectPlaylist :: "string option \<Rightarrow> world \<Rightarrow> world" where
  "selectPlaylist pid w =
     (if pid = selectedPlaylistId w then w
      else
        let w1 = w\<lparr>selectedPlaylistId := pid\<rparr> in
        if \<not> truthy (accessToken w) \<or> \<not> truthy pid then w1
        else fetch (GetPlaylistItems pid 0) (TracksPage pid [] 0)
               (w1\<lparr>tracksLoading := True, tracks := [], currentIndex := None,
                   userProfiles := []\<rparr>))"

text \<open>\<open>[...new Set(xs)]\<close> keeps the first occurrence of every element.\<close>

fun uniq :: "'a list \<Rightarrow> 'a list" where
  "uniq [] = []"
| "uniq (x # xs) = x # uniq (filter (\<lambda>y. y \<noteq> x) xs)"

definition userIdsOf :: "Track list \<Rightarrow> string list" where
  "userIdsOf all = uniq (List.map_filter
     (\<lambda>tr. case addedById tr of
              Some u \<Rightarrow> if u = [] then None else Some u
            | None \<Rightarrow> None) all)"

text \<open>The \<open>.then\<close> after \<open>fetchPage()\<close>, and the \<open>.finally\<close> that follows it.\<close>

definition tracksFetched :: "Track list \<Rightarrow> (nat \<Rightarrow> rat) \<Rightarrow> world \<Rightarrow> world" where
  "tracksFetched all rnd w =
     (let w1 = w\<lparr>tracks := shuffled rnd all\<rparr>;
          userIds = userIdsOf all
      in
      if userIds = [] then w1\<lparr>tracksLoading := False\<rparr>
      else (fetch (GetUsers userIds) (ProfilesAll userIds) w1)\<lparr>tracksLoading := False\<rparr>)"

definition tracksPage ::
    "string option \<Rightarrow> Track list \<Rightarrow> nat \<Rightarrow> page \<Rightarrow> (nat \<Rightarrow> rat) \<Rightarrow> world \<Rightarrow> world" where
  "tracksPage pid all offset resp rnd w =
     (case resp of
        PageRejected \<Rightarrow>
          w\<lparr>console := console w @ [Error ''[Spotify playlist items] Error''],
            tracksLoading := False\<rparr>
      | PageNotOk \<Rightarrow>
          tracksFetched all rnd
            (w\<lparr>console := console w @ [Error ''[Spotify playlist items] Failed'']\<rparr>)
      | PageOk items has_next \<Rightarrow>
          if has_next
          then fetch (GetPlaylistItems pid (offset + 100))
                 (TracksPage pid (all @ items) (offset + 100)) w
          else tracksFetched (all @ items) rnd w)"

definition profileOf :: "string \<Rightarrow> user_response \<Rightarrow> UserProfile" where
  "profileOf uid p =
     (case p of
        UserError \<Rightarrow> \<lparr>displayName = uid, imageUrl = None\<rparr>
      | UserData display_name displayName' pid img \<Rightarrow>
          \<lparr>displayName =
              (case display_name of
                 Some n \<Rightarrow> n
               | None \<Rightarrow> (case displayName' of
                            Some n \<Rightarrow> n
                          | None \<Rightarrow> (case pid of Some n \<Rightarrow> n | None \<Rightarrow> uid))),
           imageUrl = img\<rparr>)"

text \<open>
  Every request of \<open>Promise.all\<close> that is answered with an error status warns on the console
  and yields \<open>{ error: ... }\<close>, here \<open>UserError\<close>; the answers arrive together.
\<close>

definition userWarnings :: "string list \<Rightarrow> user_response list \<Rightarrow> log list" where
  "userWarnings userIds ps =
     map (\<lambda>(uid, p). Warn (''[Spotify user] GET /users/'' @ uid @ '' failed''))
       (filter (\<lambda>(uid, p). p = UserError) (zip userIds ps))"

definition profilesAll :: "string list \<Rightarrow> user_response list option \<Rightarrow> world \<Rightarrow> world" where
  "profilesAll userIds responses w =
     (case responses of
        None \<Rightarrow> w\<lparr>console := console w @ [Error ''[Spotify user profiles] Error'']\<rparr>
      | Some ps \<Rightarrow>
          w\<lparr>console := console w @ userWarnings userIds ps,
            userProfiles := map (\<lambda>(uid, p). (uid, profileOf uid p)) (zip userIds ps)\<rparr>)"

subsection \<open>Events\<close>

text \<open>
  What a callback does when the browser runs it. The flag \<open>ok\<close> tells a continuation of a
  \<open>fetch\<close> whether the promise was fulfilled; \<open>.then(doAdvance).catch(() => doAdvance())\<close>
  runs \<open>doAdvance\<close> either way.
\<close>

fun run_callback :: "callback \<Rightarrow> bool \<Rightarrow> ms \<Rightarrow> world \<Rightarrow> world" where
  "run_callback (PlayAfterStart e index) ok now w = playAfterStart e index ok now w"
| "run_callback (PlaySdkTick e index start) ok now w = playSdkTick e index start now w"
| "run_callback (PlayPreviewTick e index start) ok now w = playPreviewTick e index start now w"
| "run_callback (PlayDoAdvance e nextIndex url) ok now w = doAdvance e nextIndex url w"
| "run_callback (PlayAdvanceToNext e index) ok now w = playAdvanceToNext e index w"
| "run_callback PreviewPlayFailed ok now w = previewPlayFailed w"
| "run_callback (InBetweenDone e nextIndex) ok now w = inBetweenDone e nextIndex now w"
| "run_callback (DelayedPlay e nextIndex) ok now w = playTrackAtIndex e nextIndex now w"
| "run_callback PauseAfterFetch ok now w = pauseAfterFetch ok w"
| "run_callback (ResumeAfterStart e index startElapsed) ok now w =
     resumeAfterStart e index startElapsed ok now w"
| "run_callback (ResumeSdkTick e index startElapsed start) ok now w =
     resumeSdkTick e index startElapsed start now w"
| "run_callback (ResumePreviewTick e index startElapsed start) ok now w =
     resumePreviewTick e index startElapsed start now w"
| "run_callback (ResumeDoAdvance e nextIndex) ok now w = resumeDoAdvance e nextIndex w"
| "run_callback (ResumeAdvanceToNext e index) ok now w = resumeAdvanceToNext e index w"
| "run_callback ResumePlayFailed ok now w = resumePlayFailed w"
| "run_callback (TracksPage pid all offset) ok now w = w"
| "run_callback (ProfilesAll userIds) ok now w = w"

datatype event =
    RowClick nat
  | RowPlayPause nat
  | PlayPauseButton
  | NextButton
  | PrevButton
  | SelectSound "string option"
  | SelectPlaylist "string option"
  | PlayerReady string
  | PlayerNotReady
  | Tick nat
  | TimeoutFires nat
  | Settled nat bool
  | PageArrives nat page "nat \<Rightarrow> rat"
  | ProfilesArrive nat "user_response list option"
  | AudioEnded nat
  | PlayRejected nat

definition forget :: "nat \<Rightarrow> (nat \<times> 'a) list \<Rightarrow> (nat \<times> 'a) list" where
  "forget n xs = filter (\<lambda>p. fst p \<noteq> n) xs"

text \<open>
  What the view renders. The selectors are rendered once there is an access token; the track
  list under \<open>!tracksLoading && selectedPlaylistId && tracks.length > 0\<close>; the three buttons
  inside it when \<open>currentTrack\<close> is not null, each with its \<open>disabled\<close> condition.
\<close>

definition panelShown :: "world \<Rightarrow> bool" where
  "panelShown w = truthy (accessToken w)"

definition listShown :: "world \<Rightarrow> bool" where
  "listShown w =
     (panelShown w \<and> \<not> tracksLoading w \<and> truthy (selectedPlaylistId w) \<and> 0 < length (tracks w))"

definition controlsShown :: "world \<Rightarrow> bool" where
  "controlsShown w =
     (listShown w \<and> (case currentIndex w of Some i \<Rightarrow> i < length (tracks w) | None \<Rightarrow> False))"

definition prevEnabled :: "world \<Rightarrow> bool" where
  "prevEnabled w = (controlsShown w \<and> currentIndex w \<noteq> Some 0)"

definition nextEnabled :: "world \<Rightarrow> bool" where
  "nextEnabled w =
     (controlsShown w
      \<and> (case currentIndex w of Some i \<Rightarrow> i + 1 < length (tracks w) | None \<Rightarrow> False))"

text \<open>
  One event at clock reading \<open>now\<close>. The result is \<open>None\<close> when the browser cannot deliver the
  event: a click on something the view does not render or renders disabled, a tick of an
  interval that is not live, a promise that is not pending, the end of an element that is not
  playing.
\<close>

definition fire :: "ms \<Rightarrow> event \<Rightarrow> world \<Rightarrow> world option" where
  "fire now ev w =
     (case ev of
        RowClick i \<Rightarrow>
          if listShown w \<and> i < length (tracks w) then Some (rowClick i now w) else None
      | RowPlayPause i \<Rightarrow>
          if listShown w \<and> i < length (tracks w) \<and> isTrackPlayable (tracks w ! i)
          then Some (handleRowPlayPause i now w)
          else None
      | PlayPauseButton \<Rightarrow>
          if controlsShown w
          then Some (if isPlaying w then handlePause w else handleResume now w)
          else None
      | NextButton \<Rightarrow> if nextEnabled w then Some (handleNext now w) else None
      | PrevButton \<Rightarrow> if prevEnabled w then Some (handlePrev now w) else None
      | SelectSound url \<Rightarrow>
          if panelShown w
          then Some (w\<lparr>selectedInBetweenSoundUrl := (if truthy url then url else None)\<rparr>)
          else None
      | SelectPlaylist pid \<Rightarrow>
          if panelShown w
          then Some (selectPlaylist (if truthy pid then pid else None) w)
          else None
      | PlayerReady device \<Rightarrow> Some (w\<lparr>deviceId := Some device, playerReady := True\<rparr>)
      | PlayerNotReady \<Rightarrow> Some (w\<lparr>playerReady := False\<rparr>)
      | Tick t \<Rightarrow>
          (case map_of (intervals w) t of
             Some k \<Rightarrow> Some (run_callback k True now w)
           | None \<Rightarrow> None)
      | TimeoutFires t \<Rightarrow>
          (case map_of (timeouts w) t of
             Some (delay, k) \<Rightarrow> Some (run_callback k True now (w\<lparr>timeouts := forget t (timeouts w)\<rparr>))
           | None \<Rightarrow> None)
      | Settled f ok \<Rightarrow>
          (case map_of (fetches w) f of
             Some (TracksPage pid all offset) \<Rightarrow> None
           | Some (ProfilesAll userIds) \<Rightarrow> None
           | Some k \<Rightarrow> Some (run_callback k ok now (w\<lparr>fetches := forget f (fetches w)\<rparr>))
           | None \<Rightarrow> None)
      | PageArrives f resp rnd \<Rightarrow>
          (case map_of (fetches w) f of
             Some (TracksPage pid all offset) \<Rightarrow>
               Some (tracksPage pid all offset resp rnd (w\<lparr>fetches := forget f (fetches w)\<rparr>))
           | _ \<Rightarrow> None)
      | ProfilesArrive f responses \<Rightarrow>
          (case map_of (fetches w) f of
             Some (ProfilesAll userIds) \<Rightarrow>
               Some (profilesAll userIds responses (w\<lparr>fetches := forget f (fetches w)\<rparr>))
           | _ \<Rightarrow> None)
      | AudioEnded a \<Rightarrow>
          if a < length (audios w) \<and> playing (audios w ! a)
          then
            let w1 = w\<lparr>audios := (audios w)[a := (audios w ! a)\<lparr>playing := False\<rparr>]\<rparr> in
            (case onended (audios w ! a) of
               Some k \<Rightarrow> Some (run_callback k True now w1)
             | None \<Rightarrow> Some w1)
          else None
      | PlayRejected a \<Rightarrow>
          if a < length (audios w)
          then
            (case play_catch (audios w ! a) of
               Some k \<Rightarrow>
                 Some (run_callback k False now
                   (w\<lparr>audios := (audios w)[a := (audios w ! a)\<lparr>playing := False,
                      play_catch := None\<rparr>]\<rparr>))
             | None \<Rightarrow> None)
          else None)"

fun run :: "(ms \<times> event) list \<Rightarrow> world \<Rightarrow> world option" where
  "run [] w = Some w"
| "run ((now, ev) # evs) w = (case fire now ev w of None \<Rightarrow> None | Some w' \<Rightarrow> run evs w')"

subsection \<open>Concrete sessions\<close>

text \<open>
  Track lists and sessions on which the handlers are run below: tracks that only the SDK
  can play, tracks with only a preview, tracks with both and tracks with neither. The sessions
  have a playlist selected and its tracks loaded, so the view renders the list.
\<close>

definition full_track :: "string \<Rightarrow> Track" where
  "full_track n = \<lparr>track_id = n, uri = Some (''spotify:track:'' @ n), track_name = n,
     previewUrl = None, addedById = None\<rparr>"

definition preview_track :: "string \<Rightarrow> Track" where
  "preview_track n = \<lparr>track_id = n, uri = None, track_name = n,
     previewUrl = Some (''https://p.scdn.co/mp3-preview/'' @ n), addedById = None\<rparr>"

definition both_track :: "string \<Rightarrow> Track" where
  "both_track n = \<lparr>track_id = n, uri = Some (''spotify:track:'' @ n), track_name = n,
     previewUrl = Some (''https://p.scdn.co/mp3-preview/'' @ n), addedById = None\<rparr>"

definition dead_track :: "string \<Rightarrow> Track" where
  "dead_track n = \<lparr>track_id = n, uri = None, track_name = n, previewUrl = None,
     addedById = None\<rparr>"

definition listed :: "string \<Rightarrow> string \<Rightarrow> Track" where
  "listed n u = \<lparr>track_id = n, uri = Some (''spotify:track:'' @ n), track_name = n,
     previewUrl = None, addedById = Some u\<rparr>"

definition sdk_session :: world where
  "sdk_session = initial\<lparr>accessToken := Some ''token'', deviceId := Some ''device'',
     playerReady := True, selectedPlaylistId := Some ''playlist'',
     tracks := [full_track ''a'', full_track ''b'', full_track ''c'']\<rparr>"

definition sound_session :: world where
  "sound_session =
     sdk_session\<lparr>selectedInBetweenSoundUrl := Some ''/src/content/sounds/horn.mp3''\<rparr>"

definition preview_session :: world where
  "preview_session = initial\<lparr>accessToken := Some ''token'',
     selectedPlaylistId := Some ''playlist'',
     tracks := [preview_track ''a'', dead_track ''b'', preview_track ''c'']\<rparr>"

definition two_previews :: world where
  "two_previews = initial\<lparr>accessToken := Some ''token'',
     selectedPlaylistId := Some ''playlist'',
     tracks := [preview_track ''a'', preview_track ''b'']\<rparr>"

definition mixed_session :: world where
  "mixed_session = initial\<lparr>accessToken := Some ''token'', deviceId := Some ''device'',
     playerReady := True, selectedPlaylistId := Some ''playlist'',
     tracks := [both_track ''a'', both_track ''b'']\<rparr>"

definition authorized :: world where
  "authorized = initial\<lparr>accessToken := Some ''token''\<rparr>"

text \<open>
  The session \<open>mixed_session\<close> 12.5 s into its first clip on the SDK.
\<close>

definition playing_on_sdk :: world where
  "playing_on_sdk = mixed_session\<lparr>currentIndex := Some 0, isPlaying := True,
     clipElapsedMs := 12500, songsPlayed := 1, useSdkRef := True, clipTimerRef := Some 2,
     intervals := [(2, PlaySdkTick (env_of mixed_session) 0 40)], fresh := 3,
     calls := [SetCurrentIndex 0,
               RemotePlay (Some ''device'') (Some ''spotify:track:a'') 45000]\<rparr>"

text \<open>
  The same session paused at 12.5 s, after which the player reported \<open>not_ready\<close>.
\<close>

definition paused_without_device :: world where
  "paused_without_device = mixed_session\<lparr>playerReady := False, currentIndex := Some 0,
     clipElapsedMs := 12500, songsPlayed := 1, useSdkRef := True, fresh := 4,
     calls := [SetCurrentIndex 0,
               RemotePlay (Some ''device'') (Some ''spotify:track:a'') 45000,
               RemotePause (Some ''device'')]\<rparr>"

text \<open>
  Two rows are clicked one after the other, and both \<open>fetch\<close> calls settle afterwards.
\<close>

definition overlapping_starts :: "(ms \<times> event) list" where
  "overlapping_starts =
     [(0, RowClick 1), (10, RowClick 2), (50, Settled 1 True), (60, Settled 2 True)]"

text \<open>
  The interval of the first click reaches the end of its clip; the chain it starts runs to
  \<open>playTrackAtIndex\<close>, and the same interval ticks again.
\<close>

definition stale_timer_ends :: "(ms \<times> event) list" where
  "stale_timer_ends =
     [(60050, Tick 3), (60100, Settled 5 True), (60150, Tick 3), (60250, Tick 3),
      (60350, Tick 3), (60400, TimeoutFires 6), (60450, Tick 3)]"

text \<open>
  The first clip is played on the SDK to its end: the interval's tick at 60 s starts the
  advance chain, whose remote pause is now pending.
\<close>

definition clip_ends :: "(ms \<times> event) list" where
  "clip_ends = [(0, RowClick 0), (40, Settled 1 True), (60040, Tick 2)]"

text \<open>
  The play button is pressed before the chain has started the next clip; the chain and the
  resume both run on.
\<close>

definition resume_races :: "(ms \<times> event) list" where
  "resume_races =
     [(60060, PlayPauseButton), (60100, Settled 3 True), (60150, Settled 4 True),
      (60250, Tick 6), (60300, Settled 7 True), (60400, TimeoutFires 5),
      (60600, TimeoutFires 8)]"

text \<open>
  A clip ends with an in-between sound selected, and a row is clicked while the sound plays.
\<close>

definition click_during_in_between :: "(ms \<times> event) list" where
  "click_during_in_between =
     [(0, RowClick 0), (40, Settled 1 True), (60040, Tick 2), (60100, Settled 3 True),
      (60200, RowClick 2), (60250, Settled 4 True)]"

text \<open>
  A preview is started and the browser rejects \<open>audio.play()\<close>.
\<close>

definition rejected_preview :: "(ms \<times> event) list" where
  "rejected_preview = [(0, RowClick 0), (5, PlayRejected 0)]"

text \<open>
  Playlist \<open>A\<close> is selected and then playlist \<open>B\<close>, whose page and profiles arrive first.
\<close>

definition playlist_replaced :: "(ms \<times> event) list" where
  "playlist_replaced =
     [(0, SelectPlaylist (Some ''A'')),
      (10, SelectPlaylist (Some ''B'')),
      (100, PageArrives 2 (PageOk [listed ''b1'' ''bob''] False) (\<lambda>k. 0)),
      (110, ProfilesArrive 3 (Some [UserData (Some ''Bob'') None None None]))]"

text \<open>
  The page of playlist \<open>A\<close> and the profiles of its users arrive.
\<close>

definition stale_pages_arrive :: "(ms \<times> event) list" where
  "stale_pages_arrive =
     [(200, PageArrives 1 (PageOk [listed ''a1'' ''ann'', listed ''a2'' ''ann''] False)
              (\<lambda>k. 0)),
      (210, ProfilesArrive 4 (Some [UserData (Some ''Ann'') None None None]))]"

section \<open>Properties of \<open>shuffle\<close>\<close>

lemma floor_draw_range:
  assumes "0 \<le> (r::rat)" "r < 1" "0 < (i::int)"
  shows "0 \<le> \<lfloor>r * of_int (i + 1)\<rfloor> \<and> \<lfloor>r * of_int (i + 1)\<rfloor> \<le> i"
proof -
  have pos: "(0::rat) < of_int (i + 1)" using assms(3) by simp
  have a: "0 \<le> r * of_int (i + 1)" using assms(1) pos by (intro mult_nonneg_nonneg) auto
  have "r * of_int (i + 1) < 1 * of_int (i + 1)"
    using assms(2) pos by (rule mult_strict_right_mono)
  then have "r * of_int (i + 1) < of_int (i + 1)" by (simp only: mult_1)
  then have b: "\<lfloor>r * of_int (i + 1)\<rfloor> < i + 1" by (simp only: floor_less_iff)
  from a b show ?thesis by simp
qed

lemma mset_swap_in_range:
  "i < length out \<Longrightarrow> j < length out \<Longrightarrow> mset (swap out i j) = mset out"
  unfolding swap_def by (metis mset_swap)

lemma shuffle_loop_inv:
  assumes "\<forall>k. 0 \<le> rnd k \<and> rnd k < 1" "out < length h" "i < int (length (h ! out))"
  shows "length (shuffle_loop rnd k i out h) = length h
       \<and> (\<forall>a. a \<noteq> out \<longrightarrow> shuffle_loop rnd k i out h ! a = h ! a)
       \<and> mset (shuffle_loop rnd k i out h ! out) = mset (h ! out)"
  using assms
proof (induction rnd k i out h rule: shuffle_loop.induct)
  case (1 rnd k i out h)
  show ?case
  proof (cases "i > 0")
    case False
    then show ?thesis by (simp add: shuffle_loop.simps)
  next
    case True
    define j where "j = \<lfloor>rnd k * of_int (i + 1)\<rfloor>"
    define h' where "h' = h[out := swap (h ! out) (nat i) (nat j)]"
    have jr: "0 \<le> j \<and> j \<le> i"
      unfolding j_def using floor_draw_range "1.prems"(1) True by blast
    have ms: "mset (swap (h ! out) (nat i) (nat j)) = mset (h ! out)"
      using jr True "1.prems"(3) by (intro mset_swap_in_range) auto
    have len: "length (swap (h ! out) (nat i) (nat j)) = length (h ! out)"
      using ms by (metis size_mset)
    have ih: "length (shuffle_loop rnd (k + 1) (i - 1) out h') = length h'
       \<and> (\<forall>a. a \<noteq> out \<longrightarrow> shuffle_loop rnd (k + 1) (i - 1) out h' ! a = h' ! a)
       \<and> mset (shuffle_loop rnd (k + 1) (i - 1) out h' ! out) = mset (h' ! out)"
      using "1.IH"[OF True refl] "1.prems" len True
      unfolding h'_def j_def by simp
    have unf: "shuffle_loop rnd k i out h = shuffle_loop rnd (k + 1) (i - 1) out h'"
      using True by (subst shuffle_loop.simps) (simp add: h'_def j_def Let_def)
    show ?thesis unfolding unf using ih ms "1.prems"(2) by (simp add: h'_def)
  qed
qed

lemma shuffle_loop_short:
  "i \<le> 0 \<Longrightarrow> shuffle_loop rnd k i out h = h"
  by (simp add: shuffle_loop.simps)

text \<open>
  Claim C10. For every input array (a reference \<open>array\<close> into the store \<open>h\<close>), and every sequence
  of draws of \<open>Math.random()\<close> from \<open>[0, 1)\<close>, \<open>shuffle\<close> returns a reference that is not the
  input's, the array behind it has the same length and the same multiset of elements as the
  input, the input array and every other array of the store are as they were, and for an input
  of length 0 or 1 the result has the input's contents.
\<close>

theorem shuffle_is_fresh_permutation:
  assumes "array < length h" and "\<forall>k. 0 \<le> rnd k \<and> rnd k < 1"
  shows "fst (shuffle rnd array h) \<noteq> array
       \<and> (\<forall>a < length h. snd (shuffle rnd array h) ! a = h ! a)
       \<and> length (snd (shuffle rnd array h) ! fst (shuffle rnd array h)) = length (h ! array)
       \<and> mset (snd (shuffle rnd array h) ! fst (shuffle rnd array h)) = mset (h ! array)
       \<and> (length (h ! array) \<le> 1 \<longrightarrow>
            snd (shuffle rnd array h) ! fst (shuffle rnd array h) = h ! array)"
proof -
  define out where "out = length h"
  define h1 where "h1 = h @ [h ! array]"
  define i where "i = int (length (h1 ! out)) - 1"
  define h2 where "h2 = shuffle_loop rnd 0 i out h1"
  have res: "shuffle rnd array h = (out, h2)"
    by (simp add: shuffle_def Let_def out_def h1_def i_def h2_def)
  have copy: "h1 ! out = h ! array" by (simp add: h1_def out_def)
  have inv: "length h2 = length h1
       \<and> (\<forall>a. a \<noteq> out \<longrightarrow> h2 ! a = h1 ! a)
       \<and> mset (h2 ! out) = mset (h1 ! out)"
    unfolding h2_def
    by (rule shuffle_loop_inv) (use assms(2) in \<open>simp_all add: h1_def out_def i_def\<close>)
  have old: "\<forall>a < length h. h2 ! a = h ! a"
    using inv by (simp add: h1_def out_def nth_append)
  have ms: "mset (h2 ! out) = mset (h ! array)" using inv copy by simp
  have len: "length (h2 ! out) = length (h ! array)" using ms by (metis size_mset)
  have short: "length (h ! array) \<le> 1 \<longrightarrow> h2 ! out = h ! array"
  proof
    assume "length (h ! array) \<le> 1"
    then have "i \<le> 0" by (simp add: i_def copy)
    then have "h2 = h1" unfolding h2_def by (rule shuffle_loop_short)
    then show "h2 ! out = h ! array" using copy by simp
  qed
  show ?thesis unfolding res using assms(1) old ms len short by (simp add: out_def)
qed

theorem shuffle_is_fresh_permutation_witness:
  "fst (shuffle (\<lambda>k. 1 / 2) 0 [[1, 2, 3 :: nat]]) \<noteq> 0
   \<and> snd (shuffle (\<lambda>k. 1 / 2) 0 [[1, 2, 3 :: nat]]) ! 0 = [1, 2, 3]
   \<and> mset (snd (shuffle (\<lambda>k. 1 / 2) 0 [[1, 2, 3 :: nat]])
            ! fst (shuffle (\<lambda>k. 1 / 2) 0 [[1, 2, 3 :: nat]])) = mset [1, 2, 3]"
  using shuffle_is_fresh_permutation [of 0 "[[1, 2, 3 :: nat]]" "\<lambda>k. 1 / 2"] by simp

section \<open>Properties of the session\<close>

subsection \<open>What the helpers leave alone\<close>

lemmas browser_defs = fetch_def setTimeout_def startClipTimer_def clearClipTimer_def
  audio_pause_def audio_seek_def audio_onended_def audio_play_def new_audio_def
  audio_volume_def setCurrentIndex_def

lemma clearClipTimer_frame:
  "calls (clearClipTimer w) = calls w" "fetches (clearClipTimer w) = fetches w"
  "timeouts (clearClipTimer w) = timeouts w" "audios (clearClipTimer w) = audios w"
  "currentIndex (clearClipTimer w) = currentIndex w" "fresh (clearClipTimer w) = fresh w"
  "selectedInBetweenSoundUrl (clearClipTimer w) = selectedInBetweenSoundUrl w"
  "clipElapsedMs (clearClipTimer w) = clipElapsedMs w"
  "hasAdvancedRef (clearClipTimer w) = hasAdvancedRef w"
  "audioRef (clearClipTimer w) = audioRef w"
  "inBetweenAudioRef (clearClipTimer w) = inBetweenAudioRef w"
  "useSdkRef (clearClipTimer w) = useSdkRef w"
  "tracks (clearClipTimer w) = tracks w"
  "accessToken (clearClipTimer w) = accessToken w"
  "deviceId (clearClipTimer w) = deviceId w"
  "playerReady (clearClipTimer w) = playerReady w"
  "isPlaying (clearClipTimer w) = isPlaying w"
  "songsPlayed (clearClipTimer w) = songsPlayed w"
  "clipTimerRef (clearClipTimer w) = None"
  by (simp_all add: clearClipTimer_def split: option.splits)

lemma releaseInBetween_frame:
  "fetches (releaseInBetween w) = fetches w"
  "timeouts (releaseInBetween w) = timeouts w"
  "intervals (releaseInBetween w) = intervals w"
  "currentIndex (releaseInBetween w) = currentIndex w" "fresh (releaseInBetween w) = fresh w"
  "selectedInBetweenSoundUrl (releaseInBetween w) = selectedInBetweenSoundUrl w"
  "clipElapsedMs (releaseInBetween w) = clipElapsedMs w"
  "hasAdvancedRef (releaseInBetween w) = hasAdvancedRef w"
  "audioRef (releaseInBetween w) = audioRef w"
  "clipTimerRef (releaseInBetween w) = clipTimerRef w"
  "useSdkRef (releaseInBetween w) = useSdkRef w"
  "tracks (releaseInBetween w) = tracks w"
  "accessToken (releaseInBetween w) = accessToken w"
  "deviceId (releaseInBetween w) = deviceId w"
  "playerReady (releaseInBetween w) = playerReady w"
  "isPlaying (releaseInBetween w) = isPlaying w"
  "songsPlayed (releaseInBetween w) = songsPlayed w"
  "length (audios (releaseInBetween w)) = length (audios w)"
  "inBetweenAudioRef (releaseInBetween w) = None"
  by (simp_all add: releaseInBetween_def browser_defs split: option.splits)


lemma releaseAudio_calls:
  "\<exists>rest. calls (releaseAudio w) = calls w @ rest \<and> (\<forall>c \<in> set rest. \<exists>a. c = AudioPause a)"
  by (simp add: releaseAudio_def browser_defs split: option.splits)

lemma playTrackAtIndex_calls:
  "\<exists>rest. calls (playTrackAtIndex e n t v) = calls v @ rest"
  by (auto simp add: playTrackAtIndex_def Let_def browser_defs releaseAudio_def split: option.splits)

lemma inBetweenDone_calls:
  "\<exists>rest. calls (inBetweenDone e n t v) = calls v @ SetCurrentIndex n # rest"
proof -
  obtain rest where "calls (playTrackAtIndex e n t (setCurrentIndex n (v\<lparr>inBetweenAudioRef := None\<rparr>)))
     = calls (setCurrentIndex n (v\<lparr>inBetweenAudioRef := None\<rparr>)) @ rest"
    using playTrackAtIndex_calls by blast
  then show ?thesis by (simp add: inBetweenDone_def setCurrentIndex_def)
qed



lemma doAdvance_no_sound:
  assumes "\<not> truthy url"
  shows "doAdvance e n url v =
           v\<lparr>currentIndex := Some n, calls := calls v @ [SetCurrentIndex n],
             timeouts := timeouts v @ [(fresh v, 300, DelayedPlay e n)],
             fresh := fresh v + 1\<rparr>"
  using assms by (simp add: doAdvance_def setTimeout_def setCurrentIndex_def)

lemma doAdvance_sound:
  assumes "truthy url"
  shows "\<exists>xs a. calls (doAdvance e n url v) = calls v @ xs @ [NewAudio a url, AudioPlay a]
     \<and> (\<forall>c \<in> set xs. \<exists>b. c = AudioPause b)
     \<and> a < length (audios (doAdvance e n url v))
     \<and> inBetweenAudioRef (doAdvance e n url v) = Some a
     \<and> onended (audios (doAdvance e n url v) ! a) = Some (InBetweenDone e n)
     \<and> play_catch (audios (doAdvance e n url v) ! a) = Some (InBetweenDone e n)
     \<and> currentIndex (doAdvance e n url v) = currentIndex v 
     \<and> timeouts (doAdvance e n url v) = timeouts v 
     \<and> fetches (doAdvance e n url v) = fetches v"
  using assms
  by (cases "inBetweenAudioRef v") (simp_all add: doAdvance_def Let_def browser_defs nth_append)


lemma handlePause_frame:
  "clipElapsedMs (handlePause w) = clipElapsedMs w"
  "currentIndex (handlePause w) = currentIndex w"
  "tracks (handlePause w) = tracks w"
  "accessToken (handlePause w) = accessToken w"
  "deviceId (handlePause w) = deviceId w"
  "playerReady (handlePause w) = playerReady w"
  "useSdkRef (handlePause w) = useSdkRef w"
  "audioRef (handlePause w) = audioRef w"
  "length (audios (handlePause w)) = length (audios w)"
  by (simp_all add: handlePause_def Let_def fetch_def audio_pause_def
        clearClipTimer_frame releaseInBetween_frame split: option.splits)

lemma pauseAfterFetch_frame:
  "clipElapsedMs (pauseAfterFetch ok w) = clipElapsedMs w"
  "currentIndex (pauseAfterFetch ok w) = currentIndex w"
  "tracks (pauseAfterFetch ok w) = tracks w"
  "accessToken (pauseAfterFetch ok w) = accessToken w"
  "deviceId (pauseAfterFetch ok w) = deviceId w"
  "playerReady (pauseAfterFetch ok w) = playerReady w"
  "useSdkRef (pauseAfterFetch ok w) = useSdkRef w"
  "audioRef (pauseAfterFetch ok w) = audioRef w"
  "audios (pauseAfterFetch ok w) = audios w"
  "isPlaying (pauseAfterFetch ok w) = False"
  by (simp_all add: pauseAfterFetch_def)

lemma env_of_handlePause: "env_of (handlePause w) = env_of w"
  by (simp add: env_of_def handlePause_frame)

lemma env_of_pauseAfterFetch: "env_of (pauseAfterFetch ok w) = env_of w"
  by (simp add: env_of_def pauseAfterFetch_frame)

lemma handlePause_fresh_preview:
  "\<not> useSdkRef w \<Longrightarrow> fresh (handlePause w) = fresh w"
  by (simp add: handlePause_def Let_def audio_pause_def clearClipTimer_frame
        releaseInBetween_frame split: option.splits)

subsection \<open>The end of a clip\<close>

lemma playSdkTick_end:
  assumes "truthy (c_deviceId e)" "truthy (c_accessToken e)" "\<not> hasAdvancedRef w"
      and "SDK_CLIP_DURATION_MS \<le> now - start"
  shows "playSdkTick e index start now w =
     fetch (RemotePause (c_deviceId e))
       (PlayDoAdvance e ((index + 1) mod length (c_tracks e)) (selectedInBetweenSoundUrl w))
       ((clearClipTimer (w\<lparr>hasAdvancedRef := True\<rparr>))
          \<lparr>clipElapsedMs := SDK_CLIP_DURATION_MS, isPlaying := False\<rparr>)"
  using assms by (simp add: playSdkTick_def Let_def clearClipTimer_def split: option.splits)

lemma resumeSdkTick_end:
  assumes "truthy (c_deviceId e)" "truthy (c_accessToken e)" "\<not> hasAdvancedRef w"
      and "SDK_CLIP_DURATION_MS \<le> startElapsed + (now - start)"
  shows "resumeSdkTick e index startElapsed start now w =
     fetch (RemotePause (c_deviceId e))
       (ResumeDoAdvance e ((index + 1) mod length (c_tracks e)))
       ((clearClipTimer (w\<lparr>hasAdvancedRef := True\<rparr>))
          \<lparr>clipElapsedMs := SDK_CLIP_DURATION_MS, isPlaying := False\<rparr>)"
  using assms by (simp add: resumeSdkTick_def Let_def)

lemma playSdkTick_end_effects:
  assumes "truthy (c_deviceId e)" "truthy (c_accessToken e)" "\<not> hasAdvancedRef w"
      and "SDK_CLIP_DURATION_MS \<le> now - start"
  shows "calls (playSdkTick e index start now w) = calls w @ [RemotePause (c_deviceId e)]
       \<and> fetches (playSdkTick e index start now w)
           = fetches w @ [(fresh w, PlayDoAdvance e ((index + 1) mod length (c_tracks e))
                                      (selectedInBetweenSoundUrl w))]
       \<and> timeouts (playSdkTick e index start now w) = timeouts w
       \<and> audios (playSdkTick e index start now w) = audios w
       \<and> currentIndex (playSdkTick e index start now w) = currentIndex w
       \<and> hasAdvancedRef (playSdkTick e index start now w)"
  using assms by (simp add: playSdkTick_end fetch_def clearClipTimer_frame)

lemma resumeSdkTick_end_effects:
  assumes "truthy (c_deviceId e)" "truthy (c_accessToken e)" "\<not> hasAdvancedRef w"
      and "SDK_CLIP_DURATION_MS \<le> s + (now - start)"
  shows "calls (resumeSdkTick e index s start now w) = calls w @ [RemotePause (c_deviceId e)]
       \<and> fetches (resumeSdkTick e index s start now w)
           = fetches w @ [(fresh w, ResumeDoAdvance e ((index + 1) mod length (c_tracks e)))]
       \<and> timeouts (resumeSdkTick e index s start now w) = timeouts w
       \<and> audios (resumeSdkTick e index s start now w) = audios w
       \<and> currentIndex (resumeSdkTick e index s start now w) = currentIndex w
       \<and> hasAdvancedRef (resumeSdkTick e index s start now w)"
  using assms by (simp add: resumeSdkTick_end fetch_def clearClipTimer_frame)






lemma tick_with_guard_set:
  "hasAdvancedRef w \<Longrightarrow> SDK_CLIP_DURATION_MS \<le> now - start \<Longrightarrow>
     playSdkTick e index start now w = w"
  "hasAdvancedRef w \<Longrightarrow> SDK_CLIP_DURATION_MS \<le> s + (now - start) \<Longrightarrow>
     resumeSdkTick e index s start now w = w"
  "hasAdvancedRef w \<Longrightarrow> PREVIEW_CLIP_DURATION_MS \<le> now - start \<Longrightarrow>
     playPreviewTick e index start now w = w"
  "hasAdvancedRef w \<Longrightarrow> PREVIEW_CLIP_DURATION_MS \<le> s + (now - start) \<Longrightarrow>
     resumePreviewTick e index s start now w = w"
  "hasAdvancedRef w \<Longrightarrow> playAdvanceToNext e index w = w"
  "hasAdvancedRef w \<Longrightarrow> resumeAdvanceToNext e index w = w"
  by (simp_all add: playSdkTick_def resumeSdkTick_def playPreviewTick_def
        resumePreviewTick_def playAdvanceToNext_def resumeAdvanceToNext_def Let_def)

lemma second_tick_past_the_end_is_noop:
  assumes "truthy (c_deviceId e)" "truthy (c_accessToken e)" "\<not> hasAdvancedRef w"
      and "SDK_CLIP_DURATION_MS \<le> now - start" "SDK_CLIP_DURATION_MS \<le> now' - start"
  shows "playSdkTick e index start now' (playSdkTick e index start now w)
           = playSdkTick e index start now w"
  using assms playSdkTick_end_effects [OF assms(1-4), of index]
  by (intro tick_with_guard_set) simp_all

subsection \<open>Resuming\<close>

lemma handleResume_sdk:
  assumes "currentIndex w = Some index" "index < length (tracks w)" "truthy (accessToken w)"
      and "canUseSdk (env_of w) (tracks w ! index)"
  shows "handleResume now w =
     fetch (RemotePlay (deviceId w) (uri (tracks w ! index)) (SDK_CLIP_START_MS + clipElapsedMs w))
       (ResumeAfterStart (env_of w) index (clipElapsedMs w))
       ((releaseInBetween (clearClipTimer w))
          \<lparr>isPlaying := True, hasAdvancedRef := False, useSdkRef := True,
            clipDurationMs := SDK_CLIP_DURATION_MS\<rparr>)"
  using assms by (simp add: handleResume_def Let_def)

lemma handleResume_sdk_effects:
  assumes "currentIndex w = Some index" "index < length (tracks w)" "truthy (accessToken w)"
      and "canUseSdk (env_of w) (tracks w ! index)"
  shows "last (calls (handleResume now w))
           = RemotePlay (deviceId w) (uri (tracks w ! index))
               (SDK_CLIP_START_MS + clipElapsedMs w)"
    and "snd (last (fetches (handleResume now w)))
           = ResumeAfterStart (env_of w) index (clipElapsedMs w)"
  using assms by (simp_all add: handleResume_sdk fetch_def)

lemma handleResume_preview:
  assumes "currentIndex w = Some index" "index < length (tracks w)" "truthy (accessToken w)"
      and "\<not> canUseSdk (env_of w) (tracks w ! index)"
      and "\<forall>a. audioRef w = Some a \<longrightarrow> a < length (audios w)"
  shows "\<exists>a. audioRef (handleResume now w) = Some a
       \<and> a < length (audios (handleResume now w))
       \<and> currentTime (audios (handleResume now w) ! a) = clipElapsedMs w / 1000
       \<and> playing (audios (handleResume now w) ! a)
       \<and> clipTimerRef (handleResume now w) = Some (fresh w)
       \<and> last (intervals (handleResume now w))
           = (fresh w, ResumePreviewTick (env_of w) index (clipElapsedMs w) now)"
proof (cases "audioRef w")
  case None
  then show ?thesis
    using assms(1-4)
    by (simp add: handleResume_def Let_def clearClipTimer_frame releaseInBetween_frame
          startClipTimer_def audio_play_def audio_onended_def audio_seek_def audio_volume_def
          new_audio_def nth_append)
next
  case (Some a)
  then have "a < length (audios w)" using assms(5) by simp
  then show ?thesis
    using assms(1-4) Some
    by (simp add: handleResume_def Let_def clearClipTimer_frame releaseInBetween_frame
          startClipTimer_def audio_play_def audio_onended_def audio_seek_def)
qed

lemma resumeAfterStart_ok:
  "last (intervals (resumeAfterStart e i s True t v)) = (fresh v, ResumeSdkTick e i s t)"
  "clipTimerRef (resumeAfterStart e i s True t v) = Some (fresh v)"
  by (simp_all add: resumeAfterStart_def startClipTimer_def)

lemma resume_tick_progress:
  "s + (t' - t) < SDK_CLIP_DURATION_MS \<Longrightarrow>
     clipElapsedMs (resumeSdkTick e i s t t' v) = s + (t' - t)"
  "s + (t' - t) < PREVIEW_CLIP_DURATION_MS \<Longrightarrow>
     clipElapsedMs (resumePreviewTick e i s t t' v) = s + (t' - t)"
  by (simp_all add: resumeSdkTick_def resumePreviewTick_def Let_def)

subsection \<open>Manual navigation\<close>

lemma handleNext_last:
  "currentIndex u = Some i \<Longrightarrow> length (tracks u) \<le> i + 1 \<Longrightarrow> handleNext t u = u"
  by (simp add: handleNext_def)

lemma handlePrev_first:
  "currentIndex u = Some 0 \<Longrightarrow> handlePrev t u = u"
  by (simp add: handlePrev_def)

subsection \<open>The concrete sessions are reachable\<close>

lemma playing_on_sdk_reachable:
  "run [(0, RowClick 0), (40, Settled 1 True), (12540, Tick 2)] mixed_session
     = Some playing_on_sdk"
  by code_simp

lemma paused_without_device_reachable:
  "run [(12600, PlayPauseButton), (12700, Settled 3 True), (20000, PlayerNotReady)]
     playing_on_sdk = Some paused_without_device"
  by code_simp

section \<open>The claims\<close>

text \<open>
  Claim C1. The advance chain is to fire once per clip-end, also when a tick races a resume.
  For ticks of the interval stored in \<open>clipTimerRef\<close>, with nothing in between, this is what
  happens: the first tick past the end sets \<open>hasAdvancedRef\<close> and starts the chain, every
  later one returns at once (\<open>playSdkTick_end_effects\<close>, \<open>second_tick_past_the_end_is_noop\<close>,
  \<open>tick_with_guard_set\<close>). It is not what happens in every session, because
  \<open>handleResume\<close> and \<open>playTrackAtIndex\<close> set \<open>hasAdvancedRef\<close> back to false.

  First run: the clip of row 0 ends, the chain is started (remote pause pending, guard set,
  not playing). The play button is pressed before the chain has started the next clip.
  \<open>handleResume\<close> resets the guard and resumes the same clip at its retained 60000 ms, so the
  first tick of its interval starts the chain again: two remote pauses, two pending
  \<open>playTrackAtIndex(1)\<close>, and row 1 is started twice.

  Second run: rows 1 and 2 are clicked one after the other. \<open>playTrackAtIndex\<close> clears the
  interval before its \<open>await\<close> and stores a new one after it, so intervals 3 and 4 are both
  live and \<open>clipTimerRef\<close> holds 4. At its clip-end interval 3 starts the chain; its next
  three ticks return at the guard; the chain calls \<open>playTrackAtIndex\<close>, which resets the guard,
  and the next tick of interval 3 starts the chain a second time. Interval 3 is still live.
\<close>

theorem advance_chain_fires_twice:
  "map_option calls (run clip_ends sdk_session)
     = Some [SetCurrentIndex 0,
             RemotePlay (Some ''device'') (Some ''spotify:track:a'') 45000,
             RemotePause (Some ''device'')]
   \<and> map_option hasAdvancedRef (run clip_ends sdk_session) = Some True
   \<and> map_option isPlaying (run clip_ends sdk_session) = Some False
   \<and> map_option fetches (run clip_ends sdk_session)
     = Some [(3, PlayDoAdvance (env_of sdk_session) 1 None)]
   \<and> map_option fetches (run (clip_ends @ take 4 resume_races) sdk_session)
     = Some [(7, ResumeDoAdvance (env_of sdk_session) 1)]
   \<and> map_option timeouts (run (clip_ends @ take 5 resume_races) sdk_session)
     = Some [(5, 300, DelayedPlay (env_of sdk_session) 1),
             (8, 300, DelayedPlay (env_of sdk_session) 1)]
   \<and> map_option calls (run (clip_ends @ resume_races) sdk_session)
     = Some [SetCurrentIndex 0,
             RemotePlay (Some ''device'') (Some ''spotify:track:a'') 45000,
             RemotePause (Some ''device''),
             RemotePlay (Some ''device'') (Some ''spotify:track:a'') 105000,
             SetCurrentIndex 1,
             RemotePause (Some ''device''),
             SetCurrentIndex 1,
             SetCurrentIndex 1,
             RemotePlay (Some ''device'') (Some ''spotify:track:b'') 45000,
             SetCurrentIndex 1,
             RemotePlay (Some ''device'') (Some ''spotify:track:b'') 45000]
   \<and> map_option intervals (run overlapping_starts sdk_session)
     = Some [(3, PlaySdkTick (env_of sdk_session) 1 50),
             (4, PlaySdkTick (env_of sdk_session) 2 60)]
   \<and> map_option clipTimerRef (run overlapping_starts sdk_session) = Some (Some 4)
   \<and> map_option calls (run (overlapping_starts @ stale_timer_ends) sdk_session)
     = Some [SetCurrentIndex 1,
             RemotePlay (Some ''device'') (Some ''spotify:track:b'') 45000,
             SetCurrentIndex 2,
             RemotePlay (Some ''device'') (Some ''spotify:track:c'') 45000,
             RemotePause (Some ''device''),
             SetCurrentIndex 2,
             SetCurrentIndex 2,
             RemotePlay (Some ''device'') (Some ''spotify:track:c'') 45000,
             RemotePause (Some ''device'')]
   \<and> map_option fetches (run (overlapping_starts @ stale_timer_ends) sdk_session)
     = Some [(7, PlayAfterStart (env_of sdk_session) 2),
             (8, PlayDoAdvance (env_of sdk_session) 2 None)]
   \<and> map_option intervals (run (overlapping_starts @ stale_timer_ends) sdk_session)
     = Some [(3, PlaySdkTick (env_of sdk_session) 1 50)]"
  by code_simp

text \<open>
  Claim C2. A continuation of the fetch for a replaced playlist is to be discarded. The effect
  keeps no generation and has no cleanup: after playlist \<open>A\<close> is replaced by \<open>B\<close> and the
  tracks and profiles of \<open>B\<close> are loaded, the page of \<open>A\<close> that arrives late replaces the
  tracks, and the profiles of its users replace the profiles, while \<open>B\<close> remains the selected
  playlist. The current index is not touched.
\<close>

theorem stale_playlist_fetch_overwrites_tracks:
  "map_option selectedPlaylistId (run playlist_replaced authorized) = Some (Some ''B'')
   \<and> map_option tracks (run playlist_replaced authorized) = Some [listed ''b1'' ''bob'']
   \<and> map_option userProfiles (run playlist_replaced authorized)
       = Some [(''bob'', \<lparr>displayName = ''Bob'', imageUrl = None\<rparr>)]
   \<and> map_option fetches (run playlist_replaced authorized)
       = Some [(1, TracksPage (Some ''A'') [] 0)]
   \<and> map_option selectedPlaylistId
        (run (playlist_replaced @ stale_pages_arrive) authorized) = Some (Some ''B'')
   \<and> map_option tracks (run (playlist_replaced @ stale_pages_arrive) authorized)
       = Some [listed ''a2'' ''ann'', listed ''a1'' ''ann'']
   \<and> map_option userProfiles (run (playlist_replaced @ stale_pages_arrive) authorized)
       = Some [(''ann'', \<lparr>displayName = ''Ann'', imageUrl = None\<rparr>)]
   \<and> map_option currentIndex (run (playlist_replaced @ stale_pages_arrive) authorized)
       = Some None"
  by code_simp

text \<open>
  Claim C3, as stated, at a concrete session: the clip ran on the SDK and was paused at
  12.5 s, the player is no longer ready, the track has a preview. \<open>handleResume\<close> switches to
  the preview backend and does not start at 0: the new audio element is positioned at 12.5 s,
  the interval carries 12500 ms, and the tick 100 ms later publishes 12600 ms.
\<close>

theorem resume_after_backend_switch_counterexample:
  "useSdkRef paused_without_device
   \<and> \<not> canUseSdk (env_of paused_without_device) (tracks paused_without_device ! 0)
   \<and> clipElapsedMs paused_without_device = 12500
   \<and> audioRef (handleResume 30000 paused_without_device) = Some 0
   \<and> currentTime (audios (handleResume 30000 paused_without_device) ! 0) = 25 / 2
   \<and> currentTime (audios (handleResume 30000 paused_without_device) ! 0) \<noteq> 0
   \<and> intervals (handleResume 30000 paused_without_device)
       = [(4, ResumePreviewTick (env_of paused_without_device) 0 12500 30000)]
   \<and> clipElapsedMs (resumePreviewTick (env_of paused_without_device) 0 12500 30000 30100
        (handleResume 30000 paused_without_device)) = 12600"
  by code_simp

text \<open>
  Claim C3, amended. \<open>handleResume\<close> chooses the backend again and, also when the kind chosen
  differs from the kind active before the pause, continues from the retained elapsed value:
  the SDK is started at the clip start offset plus the retained elapsed value, a preview
  element is positioned at the retained elapsed value (in seconds), and the interval restarts
  with the retained elapsed value as carry-over.
\<close>

theorem resume_after_backend_switch_keeps_elapsed:
  assumes "currentIndex w = Some index" and "index < length (tracks w)"
      and "truthy (accessToken w)"
      and "\<forall>a. audioRef w = Some a \<longrightarrow> a < length (audios w)"
      and "useSdkRef w \<noteq> canUseSdk (env_of w) (tracks w ! index)"
  shows "(canUseSdk (env_of w) (tracks w ! index) \<longrightarrow>
            last (calls (handleResume now w))
              = RemotePlay (deviceId w) (uri (tracks w ! index))
                  (SDK_CLIP_START_MS + clipElapsedMs w)
            \<and> snd (last (fetches (handleResume now w)))
              = ResumeAfterStart (env_of w) index (clipElapsedMs w)
            \<and> useSdkRef (handleResume now w))
       \<and> (\<not> canUseSdk (env_of w) (tracks w ! index) \<longrightarrow>
            (\<exists>a. audioRef (handleResume now w) = Some a
               \<and> currentTime (audios (handleResume now w) ! a) = clipElapsedMs w / 1000
               \<and> playing (audios (handleResume now w) ! a)
               \<and> last (intervals (handleResume now w))
                   = (fresh w, ResumePreviewTick (env_of w) index (clipElapsedMs w) now))
            \<and> \<not> useSdkRef (handleResume now w))
       \<and> last (intervals (resumeAfterStart (env_of w) index (clipElapsedMs w) True t v))
            = (fresh v, ResumeSdkTick (env_of w) index (clipElapsedMs w) t)
       \<and> (clipElapsedMs w + (t' - t) < SDK_CLIP_DURATION_MS \<longrightarrow>
            clipElapsedMs (resumeSdkTick (env_of w) index (clipElapsedMs w) t t' v)
              = clipElapsedMs w + (t' - t))
       \<and> (clipElapsedMs w + (t' - t) < PREVIEW_CLIP_DURATION_MS \<longrightarrow>
            clipElapsedMs (resumePreviewTick (env_of w) index (clipElapsedMs w) t t' v)
              = clipElapsedMs w + (t' - t))"
proof -
  have sdk: "canUseSdk (env_of w) (tracks w ! index) \<longrightarrow>
            last (calls (handleResume now w))
              = RemotePlay (deviceId w) (uri (tracks w ! index))
                  (SDK_CLIP_START_MS + clipElapsedMs w)
            \<and> snd (last (fetches (handleResume now w)))
              = ResumeAfterStart (env_of w) index (clipElapsedMs w)
            \<and> useSdkRef (handleResume now w)"
    using assms(1-3) by (simp add: handleResume_sdk_effects) (simp add: handleResume_sdk fetch_def)
  have prev: "\<not> canUseSdk (env_of w) (tracks w ! index) \<longrightarrow>
            (\<exists>a. audioRef (handleResume now w) = Some a
               \<and> currentTime (audios (handleResume now w) ! a) = clipElapsedMs w / 1000
               \<and> playing (audios (handleResume now w) ! a)
               \<and> last (intervals (handleResume now w))
                   = (fresh w, ResumePreviewTick (env_of w) index (clipElapsedMs w) now))
            \<and> \<not> useSdkRef (handleResume now w)"
  proof
    assume c: "\<not> canUseSdk (env_of w) (tracks w ! index)"
    have u: "\<not> useSdkRef (handleResume now w)"
      using assms(1-3) c
      by (simp add: handleResume_def Let_def startClipTimer_def audio_play_def
            audio_onended_def audio_seek_def audio_volume_def new_audio_def
            split: option.splits)
    show "(\<exists>a. audioRef (handleResume now w) = Some a
               \<and> currentTime (audios (handleResume now w) ! a) = clipElapsedMs w / 1000
               \<and> playing (audios (handleResume now w) ! a)
               \<and> last (intervals (handleResume now w))
                   = (fresh w, ResumePreviewTick (env_of w) index (clipElapsedMs w) now))
            \<and> \<not> useSdkRef (handleResume now w)"
      using handleResume_preview [OF assms(1-3) c assms(4), of now] u by auto
  qed
  show ?thesis
    using sdk prev by (simp add: resumeAfterStart_ok resume_tick_progress)
qed

theorem resume_after_backend_switch_keeps_elapsed_witness:
  "\<exists>a. audioRef (handleResume 30000 paused_without_device) = Some a
     \<and> currentTime (audios (handleResume 30000 paused_without_device) ! a)
         = clipElapsedMs paused_without_device / 1000
     \<and> playing (audios (handleResume 30000 paused_without_device) ! a)
     \<and> last (intervals (handleResume 30000 paused_without_device))
         = (fresh paused_without_device,
            ResumePreviewTick (env_of paused_without_device) 0
              (clipElapsedMs paused_without_device) 30000)"
proof -
  have h1: "currentIndex paused_without_device = Some 0" by code_simp
  have h2: "0 < length (tracks paused_without_device)" by code_simp
  have h3: "truthy (accessToken paused_without_device)" by code_simp
  have h4: "\<forall>a. audioRef paused_without_device = Some a
              \<longrightarrow> a < length (audios paused_without_device)"
    by (simp add: paused_without_device_def mixed_session_def initial_def)
  have c: "\<not> canUseSdk (env_of paused_without_device) (tracks paused_without_device ! 0)"
    by code_simp
  have u: "useSdkRef paused_without_device" by code_simp
  have h5: "useSdkRef paused_without_device
              \<noteq> canUseSdk (env_of paused_without_device) (tracks paused_without_device ! 0)"
    using c u by simp
  show ?thesis
    using resume_after_backend_switch_keeps_elapsed [OF h1 h2 h3 h4 h5, of 30000] c by blast
qed

text \<open>
  Claim C4. \<open>playTrackAtIndex\<close> is to release the active backend and the active in-between
  sound before it acquires anything. Its prologue releases \<open>audioRef\<close> and the interval in
  \<open>clipTimerRef\<close>; unlike \<open>handlePause\<close> and \<open>handleResume\<close> it does not touch
  \<open>inBetweenAudioRef\<close>. In \<open>sound_session\<close> a row is clicked while the in-between sound
  plays: afterwards the sound is still playing and still referenced while the clip of row 2
  has been started, and when the sound ends its handler starts row 1 over it. The last
  conjunct is the second way to more than one live resource: two overlapping calls leave two
  live intervals.
\<close>

theorem playAt_keeps_in_between_sound_and_timers_leak:
  "map_option inBetweenAudioRef (run click_during_in_between sound_session) = Some (Some 0)
   \<and> map_option (map playing \<circ> audios) (run click_during_in_between sound_session)
       = Some [True]
   \<and> map_option isPlaying (run click_during_in_between sound_session) = Some True
   \<and> map_option calls (run click_during_in_between sound_session)
       = Some [SetCurrentIndex 0,
               RemotePlay (Some ''device'') (Some ''spotify:track:a'') 45000,
               RemotePause (Some ''device''),
               NewAudio 0 (Some ''/src/content/sounds/horn.mp3''),
               AudioPlay 0,
               SetCurrentIndex 2,
               RemotePlay (Some ''device'') (Some ''spotify:track:c'') 45000]
   \<and> map_option calls
         (run (click_during_in_between @ [(62000, AudioEnded 0)]) sound_session)
       = Some [SetCurrentIndex 0,
               RemotePlay (Some ''device'') (Some ''spotify:track:a'') 45000,
               RemotePause (Some ''device''),
               NewAudio 0 (Some ''/src/content/sounds/horn.mp3''),
               AudioPlay 0,
               SetCurrentIndex 2,
               RemotePlay (Some ''device'') (Some ''spotify:track:c'') 45000,
               SetCurrentIndex 1,
               SetCurrentIndex 1,
               RemotePlay (Some ''device'') (Some ''spotify:track:b'') 45000]
   \<and> map_option (map fst \<circ> intervals) (run overlapping_starts sdk_session) = Some [3, 4]"
  by code_simp

text \<open>
  Claim C5. For every index whose track is unplayable (\<open>canUseSdk\<close> and \<open>canUsePreview\<close> both
  fail), \<open>playTrackAtIndex\<close> returns the state it was given, with one warning appended to the
  console: current index, elapsed time, is-playing flag, play count, intervals and every other
  component are unchanged. (Without an access token it returns earlier, with no warning.)
\<close>

theorem playAt_unplayable_is_noop:
  assumes "index < length (c_tracks e)"
      and "\<not> canUseSdk e (c_tracks e ! index)"
      and "\<not> canUsePreview (c_tracks e ! index)"
  shows "playTrackAtIndex e index now w =
           (if truthy (c_accessToken e)
            then w\<lparr>console := console w @ [Warn ''Track has no uri (SDK) or preview_url'']\<rparr>
            else w)"
  using assms by (simp add: playTrackAtIndex_def)

theorem playAt_unplayable_is_noop_witness:
  "playTrackAtIndex (env_of preview_session) 1 0 preview_session =
     preview_session\<lparr>console := console preview_session
        @ [Warn ''Track has no uri (SDK) or preview_url'']\<rparr>"
proof -
  have h1: "1 < length (c_tracks (env_of preview_session))" by code_simp
  have h2: "\<not> canUseSdk (env_of preview_session) (c_tracks (env_of preview_session) ! 1)"
    by code_simp
  have h3: "\<not> canUsePreview (c_tracks (env_of preview_session) ! 1)" by code_simp
  have h4: "truthy (c_accessToken (env_of preview_session))" by code_simp
  show ?thesis
    using playAt_unplayable_is_noop [OF h1 h2 h3, of 0 preview_session] h4 by simp
qed

text \<open>
  Claim C6. \<open>handlePause\<close>, and its continuation after the remote pause, leave \<open>clipElapsedMs\<close>
  unchanged. A following \<open>handleResume\<close> with the same backend kind continues from that value:
  on the SDK it issues the remote start at \<open>SDK_CLIP_START_MS\<close> plus the retained value and its
  interval carries the retained value; on the preview backend it sets the element's position to
  the retained value (in seconds), plays it, and starts an interval that carries the retained
  value. A tick before the end of the clip publishes the retained value plus the time since
  the resume.
\<close>

theorem pause_then_resume_keeps_elapsed:
  assumes "currentIndex w = Some index" and "index < length (tracks w)"
      and "truthy (accessToken w)"
      and "\<forall>a. audioRef w = Some a \<longrightarrow> a < length (audios w)"
      and "useSdkRef w = canUseSdk (env_of w) (tracks w ! index)"
  shows "clipElapsedMs (handlePause w) = clipElapsedMs w
       \<and> clipElapsedMs (pauseAfterFetch ok (handlePause w)) = clipElapsedMs w
       \<and> (useSdkRef w \<longrightarrow>
            last (calls (handleResume now (pauseAfterFetch ok (handlePause w))))
              = RemotePlay (deviceId w) (uri (tracks w ! index))
                  (SDK_CLIP_START_MS + clipElapsedMs w)
            \<and> snd (last (fetches (handleResume now (pauseAfterFetch ok (handlePause w)))))
              = ResumeAfterStart (env_of w) index (clipElapsedMs w))
       \<and> last (intervals (resumeAfterStart (env_of w) index (clipElapsedMs w) True t v))
            = (fresh v, ResumeSdkTick (env_of w) index (clipElapsedMs w) t)
       \<and> (clipElapsedMs w + (t' - t) < SDK_CLIP_DURATION_MS \<longrightarrow>
            clipElapsedMs (resumeSdkTick (env_of w) index (clipElapsedMs w) t t' v)
              = clipElapsedMs w + (t' - t))
       \<and> (\<not> useSdkRef w \<longrightarrow>
            (\<exists>a. audioRef (handleResume now (handlePause w)) = Some a
               \<and> currentTime (audios (handleResume now (handlePause w)) ! a)
                   = clipElapsedMs w / 1000
               \<and> playing (audios (handleResume now (handlePause w)) ! a)
               \<and> last (intervals (handleResume now (handlePause w)))
                   = (fresh w, ResumePreviewTick (env_of w) index (clipElapsedMs w) now)))
       \<and> (clipElapsedMs w + (t' - t) < PREVIEW_CLIP_DURATION_MS \<longrightarrow>
            clipElapsedMs (resumePreviewTick (env_of w) index (clipElapsedMs w) t t' v)
              = clipElapsedMs w + (t' - t))"
proof -
  let ?p = "handlePause w"
  let ?q = "pauseAfterFetch ok ?p"
  have q: "currentIndex ?q = Some index" "index < length (tracks ?q)"
          "truthy (accessToken ?q)" "tracks ?q = tracks w" "deviceId ?q = deviceId w"
          "clipElapsedMs ?q = clipElapsedMs w" "env_of ?q = env_of w"
    using assms(1-3)
    by (simp_all add: pauseAfterFetch_frame handlePause_frame env_of_pauseAfterFetch
          env_of_handlePause)
  have p: "currentIndex ?p = Some index" "index < length (tracks ?p)"
          "truthy (accessToken ?p)" "tracks ?p = tracks w"
          "clipElapsedMs ?p = clipElapsedMs w" "env_of ?p = env_of w"
          "\<forall>a. audioRef ?p = Some a \<longrightarrow> a < length (audios ?p)"
    using assms(1-4) by (simp_all add: handlePause_frame env_of_handlePause)
  have sdk: "useSdkRef w \<longrightarrow>
            last (calls (handleResume now ?q))
              = RemotePlay (deviceId w) (uri (tracks w ! index))
                  (SDK_CLIP_START_MS + clipElapsedMs w)
            \<and> snd (last (fetches (handleResume now ?q)))
              = ResumeAfterStart (env_of w) index (clipElapsedMs w)"
  proof
    assume "useSdkRef w"
    then have c: "canUseSdk (env_of ?q) (tracks ?q ! index)" using assms(5) q by simp
    show "last (calls (handleResume now ?q))
              = RemotePlay (deviceId w) (uri (tracks w ! index))
                  (SDK_CLIP_START_MS + clipElapsedMs w)
            \<and> snd (last (fetches (handleResume now ?q)))
              = ResumeAfterStart (env_of w) index (clipElapsedMs w)"
      using handleResume_sdk_effects [OF q(1) q(2) q(3) c, of now] q by simp
  qed
  have prev: "\<not> useSdkRef w \<longrightarrow>
            (\<exists>a. audioRef (handleResume now ?p) = Some a
               \<and> currentTime (audios (handleResume now ?p) ! a) = clipElapsedMs w / 1000
               \<and> playing (audios (handleResume now ?p) ! a)
               \<and> last (intervals (handleResume now ?p))
                   = (fresh w, ResumePreviewTick (env_of w) index (clipElapsedMs w) now))"
  proof
    assume n: "\<not> useSdkRef w"
    then have c: "\<not> canUseSdk (env_of ?p) (tracks ?p ! index)" using assms(5) p by simp
    have f: "fresh ?p = fresh w" using n by (rule handlePause_fresh_preview)
    show "\<exists>a. audioRef (handleResume now ?p) = Some a
               \<and> currentTime (audios (handleResume now ?p) ! a) = clipElapsedMs w / 1000
               \<and> playing (audios (handleResume now ?p) ! a)
               \<and> last (intervals (handleResume now ?p))
                   = (fresh w, ResumePreviewTick (env_of w) index (clipElapsedMs w) now)"
      using handleResume_preview [OF p(1) p(2) p(3) c p(7), of now] p f by auto
  qed
  show ?thesis
    using sdk prev
    by (simp add: handlePause_frame pauseAfterFetch_frame resumeAfterStart_ok
          resume_tick_progress)
qed

theorem pause_then_resume_keeps_elapsed_witness:
  "clipElapsedMs (handlePause playing_on_sdk) = clipElapsedMs playing_on_sdk
   \<and> clipElapsedMs (pauseAfterFetch True (handlePause playing_on_sdk))
       = clipElapsedMs playing_on_sdk
   \<and> last (calls (handleResume 20000 (pauseAfterFetch True (handlePause playing_on_sdk))))
       = RemotePlay (deviceId playing_on_sdk) (uri (tracks playing_on_sdk ! 0))
           (SDK_CLIP_START_MS + clipElapsedMs playing_on_sdk)"
proof -
  have h1: "currentIndex playing_on_sdk = Some 0" by code_simp
  have h2: "0 < length (tracks playing_on_sdk)" by code_simp
  have h3: "truthy (accessToken playing_on_sdk)" by code_simp
  have h4: "\<forall>a. audioRef playing_on_sdk = Some a \<longrightarrow> a < length (audios playing_on_sdk)"
    by (simp add: playing_on_sdk_def mixed_session_def initial_def)
  have u: "useSdkRef playing_on_sdk" by code_simp
  have c: "canUseSdk (env_of playing_on_sdk) (tracks playing_on_sdk ! 0)" by code_simp
  have h5: "useSdkRef playing_on_sdk
              = canUseSdk (env_of playing_on_sdk) (tracks playing_on_sdk ! 0)"
    using u c by simp
  show ?thesis
    using pause_then_resume_keeps_elapsed [OF h1 h2 h3 h4 h5, of True 20000] u by blast
qed

lemma pause_then_resume_example:
  "last (calls (handleResume 20000 (pauseAfterFetch True (handlePause playing_on_sdk))))
     = RemotePlay (Some ''device'') (Some ''spotify:track:a'') 57500"
  by code_simp



text \<open>
  Claim C8. At the end of a clip on the SDK, the interval callback of \<open>playTrackAtIndex\<close>
  (at \<open>elapsed \<ge> 60000\<close>) and that of \<open>handleResume\<close> (at \<open>startElapsed + elapsed \<ge> 60000\<close>,
  for any carry-over) add one call, the remote pause, and leave \<open>doAdvance\<close> pending on
  it: no timeout, no audio element and no change of the current index yet. \<open>doAdvance\<close> does
  the same whether the pause was fulfilled or rejected. Without an in-between sound it sets the
  current index and schedules \<open>playTrackAtIndex\<close> after 300 ms, and makes no other call. With
  a sound it creates and plays the sound with \<open>InBetweenDone\<close> as both handlers, and the
  first call \<open>InBetweenDone\<close> makes is the setter of the current index, before anything
  \<open>playTrackAtIndex\<close> does.
\<close>

theorem full_clip_end_chain:
  assumes "truthy (c_deviceId e)" and "truthy (c_accessToken e)"
      and "\<not> hasAdvancedRef w"
      and "SDK_CLIP_DURATION_MS \<le> now - start"
      and "SDK_CLIP_DURATION_MS \<le> s + (now_r - start_r)"
  shows "calls (playSdkTick e index start now w) = calls w @ [RemotePause (c_deviceId e)]
       \<and> fetches (playSdkTick e index start now w)
           = fetches w @ [(fresh w, PlayDoAdvance e ((index + 1) mod length (c_tracks e))
                                      (selectedInBetweenSoundUrl w))]
       \<and> timeouts (playSdkTick e index start now w) = timeouts w
       \<and> audios (playSdkTick e index start now w) = audios w
       \<and> currentIndex (playSdkTick e index start now w) = currentIndex w
       \<and> calls (resumeSdkTick e index s start_r now_r w) = calls w @ [RemotePause (c_deviceId e)]
       \<and> fetches (resumeSdkTick e index s start_r now_r w)
           = fetches w @ [(fresh w, ResumeDoAdvance e ((index + 1) mod length (c_tracks e)))]
       \<and> timeouts (resumeSdkTick e index s start_r now_r w) = timeouts w
       \<and> audios (resumeSdkTick e index s start_r now_r w) = audios w
       \<and> currentIndex (resumeSdkTick e index s start_r now_r w) = currentIndex w
       \<and> run_callback (PlayDoAdvance e n url) False t v
           = run_callback (PlayDoAdvance e n url) True t v
       \<and> run_callback (ResumeDoAdvance e n) False t v
           = run_callback (ResumeDoAdvance e n) True t v
       \<and> (\<not> truthy url \<longrightarrow>
            run_callback (PlayDoAdvance e n url) ok t v
              = v\<lparr>currentIndex := Some n, calls := calls v @ [SetCurrentIndex n],
                   timeouts := timeouts v @ [(fresh v, 300, DelayedPlay e n)],
                   fresh := fresh v + 1\<rparr>)
       \<and> (\<not> truthy (selectedInBetweenSoundUrl v) \<longrightarrow>
            run_callback (ResumeDoAdvance e n) ok t v
              = v\<lparr>currentIndex := Some n, calls := calls v @ [SetCurrentIndex n],
                   timeouts := timeouts v @ [(fresh v, 300, DelayedPlay e n)],
                   fresh := fresh v + 1\<rparr>)
       \<and> run_callback (DelayedPlay e n) ok t v = playTrackAtIndex e n t v
       \<and> (truthy url \<longrightarrow>
            (\<exists>xs a. calls (run_callback (PlayDoAdvance e n url) ok t v)
                       = calls v @ xs @ [NewAudio a url, AudioPlay a]
                 \<and> (\<forall>c \<in> set xs. \<exists>b. c = AudioPause b)
                 \<and> onended (audios (run_callback (PlayDoAdvance e n url) ok t v) ! a)
                     = Some (InBetweenDone e n)
                 \<and> play_catch (audios (run_callback (PlayDoAdvance e n url) ok t v) ! a)
                     = Some (InBetweenDone e n)
                 \<and> timeouts (run_callback (PlayDoAdvance e n url) ok t v) = timeouts v))
       \<and> (truthy (selectedInBetweenSoundUrl v) \<longrightarrow>
            (\<exists>xs a. calls (run_callback (ResumeDoAdvance e n) ok t v)
                       = calls v @ xs @ [NewAudio a (selectedInBetweenSoundUrl v), AudioPlay a]
                 \<and> (\<forall>c \<in> set xs. \<exists>b. c = AudioPause b)
                 \<and> onended (audios (run_callback (ResumeDoAdvance e n) ok t v) ! a)
                     = Some (InBetweenDone e n)
                 \<and> play_catch (audios (run_callback (ResumeDoAdvance e n) ok t v) ! a)
                     = Some (InBetweenDone e n)
                 \<and> timeouts (run_callback (ResumeDoAdvance e n) ok t v) = timeouts v))
       \<and> (\<exists>rest. calls (run_callback (InBetweenDone e n) ok t v)
                    = calls v @ SetCurrentIndex n # rest)"
proof -
  note a = playSdkTick_end_effects [OF assms(1-4), of index]
  note b = resumeSdkTick_end_effects [OF assms(1-3,5), of index]
  have c: "\<not> truthy url \<longrightarrow>
            run_callback (PlayDoAdvance e n url) ok t v
              = v\<lparr>currentIndex := Some n, calls := calls v @ [SetCurrentIndex n],
                   timeouts := timeouts v @ [(fresh v, 300, DelayedPlay e n)],
                   fresh := fresh v + 1\<rparr>"
    by (simp add: doAdvance_no_sound)
  have d: "\<not> truthy (selectedInBetweenSoundUrl v) \<longrightarrow>
            run_callback (ResumeDoAdvance e n) ok t v
              = v\<lparr>currentIndex := Some n, calls := calls v @ [SetCurrentIndex n],
                   timeouts := timeouts v @ [(fresh v, 300, DelayedPlay e n)],
                   fresh := fresh v + 1\<rparr>"
    by (simp add: resumeDoAdvance_def doAdvance_no_sound)
  have f: "truthy url \<longrightarrow>
            (\<exists>xs a. calls (run_callback (PlayDoAdvance e n url) ok t v)
                       = calls v @ xs @ [NewAudio a url, AudioPlay a]
                 \<and> (\<forall>c \<in> set xs. \<exists>b. c = AudioPause b)
                 \<and> onended (audios (run_callback (PlayDoAdvance e n url) ok t v) ! a)
                     = Some (InBetweenDone e n)
                 \<and> play_catch (audios (run_callback (PlayDoAdvance e n url) ok t v) ! a)
                     = Some (InBetweenDone e n)
                 \<and> timeouts (run_callback (PlayDoAdvance e n url) ok t v) = timeouts v)"
    using doAdvance_sound [of url e n v] by auto
  have g: "truthy (selectedInBetweenSoundUrl v) \<longrightarrow>
            (\<exists>xs a. calls (run_callback (ResumeDoAdvance e n) ok t v)
                       = calls v @ xs @ [NewAudio a (selectedInBetweenSoundUrl v), AudioPlay a]
                 \<and> (\<forall>c \<in> set xs. \<exists>b. c = AudioPause b)
                 \<and> onended (audios (run_callback (ResumeDoAdvance e n) ok t v) ! a)
                     = Some (InBetweenDone e n)
                 \<and> play_catch (audios (run_callback (ResumeDoAdvance e n) ok t v) ! a)
                     = Some (InBetweenDone e n)
                 \<and> timeouts (run_callback (ResumeDoAdvance e n) ok t v) = timeouts v)"
    using doAdvance_sound [of "selectedInBetweenSoundUrl v" e n v]
    by (auto simp add: resumeDoAdvance_def)
  have h: "\<exists>rest. calls (run_callback (InBetweenDone e n) ok t v)
                    = calls v @ SetCurrentIndex n # rest"
    using inBetweenDone_calls [of e n t v] by simp
  show ?thesis using a b c d f g h by simp
qed

theorem full_clip_end_chain_witness:
  "calls (playSdkTick (env_of sdk_session) 0 0 60000 sdk_session)
     = calls sdk_session @ [RemotePause (c_deviceId (env_of sdk_session))]
   \<and> fetches (playSdkTick (env_of sdk_session) 0 0 60000 sdk_session)
       = fetches sdk_session @ [(fresh sdk_session,
           PlayDoAdvance (env_of sdk_session) ((0 + 1) mod length (c_tracks (env_of sdk_session)))
             (selectedInBetweenSoundUrl sdk_session))]
   \<and> calls (resumeSdkTick (env_of sdk_session) 0 12500 30000 77500 sdk_session)
       = calls sdk_session @ [RemotePause (c_deviceId (env_of sdk_session))]
   \<and> fetches (resumeSdkTick (env_of sdk_session) 0 12500 30000 77500 sdk_session)
       = fetches sdk_session @ [(fresh sdk_session,
           ResumeDoAdvance (env_of sdk_session)
             ((0 + 1) mod length (c_tracks (env_of sdk_session))))]
   \<and> run_callback (PlayDoAdvance (env_of sdk_session) 1 None) True 60100 sdk_session
       = sdk_session\<lparr>currentIndex := Some 1,
           calls := calls sdk_session @ [SetCurrentIndex 1],
           timeouts := timeouts sdk_session
             @ [(fresh sdk_session, 300, DelayedPlay (env_of sdk_session) 1)],
           fresh := fresh sdk_session + 1\<rparr>"
proof -
  have h1: "truthy (c_deviceId (env_of sdk_session))" by code_simp
  have h2: "truthy (c_accessToken (env_of sdk_session))" by code_simp
  have h3: "\<not> hasAdvancedRef sdk_session" by code_simp
  have h4: "SDK_CLIP_DURATION_MS \<le> 60000 - 0" by (simp add: SDK_CLIP_DURATION_MS_def)
  have h5: "SDK_CLIP_DURATION_MS \<le> 12500 + (77500 - 30000)"
    by (simp add: SDK_CLIP_DURATION_MS_def)
  have n: "\<not> truthy None" by (simp add: truthy_def)
  note T = full_clip_end_chain
             [OF h1 h2 h3 h4 h5, where index = 0 and n = 1 and url = None and t = 60100
                and v = sdk_session and ok = True]
  show ?thesis using T n by simp
qed

text \<open>
  Claim C9. A failed start is to leave the clip abandoned, with no automatic advance. The SDK
  branch does so: on a rejected \<open>fetch\<close> it logs, clears the is-playing flag and returns
  before it starts an interval (\<open>playAfterStart\<close>). The preview branch starts its interval
  without waiting for \<open>audio.play()\<close>, and the rejection handler only logs and clears the
  flag. In \<open>two_previews\<close>, after the rejected start of row 0 the interval is still live, its
  ticks publish progress, and at 30 s it advances: row 1 is started and the session is
  playing again.
\<close>

theorem rejected_preview_still_advances:
  "map_option isPlaying (run rejected_preview two_previews) = Some False
   \<and> map_option console (run rejected_preview two_previews)
       = Some [Error ''Failed to play preview'']
   \<and> map_option intervals (run rejected_preview two_previews)
       = Some [(1, PlayPreviewTick (env_of two_previews) 0 0)]
   \<and> map_option clipElapsedMs (run (rejected_preview @ [(100, Tick 1)]) two_previews)
       = Some 100
   \<and> map_option currentIndex
        (run (rejected_preview @ [(30000, Tick 1), (30300, TimeoutFires 2)]) two_previews)
       = Some (Some 1)
   \<and> map_option isPlaying
        (run (rejected_preview @ [(30000, Tick 1), (30300, TimeoutFires 2)]) two_previews)
       = Some True
   \<and> map_option calls
        (run (rejected_preview @ [(30000, Tick 1), (30300, TimeoutFires 2)]) two_previews)
       = Some [SetCurrentIndex 0,
               NewAudio 0 (Some ''https://p.scdn.co/mp3-preview/a''),
               AudioPlay 0,
               AudioPause 0,
               SetCurrentIndex 1,
               SetCurrentIndex 1,
               NewAudio 1 (Some ''https://p.scdn.co/mp3-preview/b''),
               AudioPlay 1]"
  by code_simp

end
